theory Spec2Isabelle
  imports Complex_Main
begin

section \<open>Strings and results\<close>

text \<open>
  The automation tool is written in TypeScript. Its strings are modelled as \<open>string\<close>
  (lists of 8-bit characters, read as the code units U+0000 to U+00FF), its numbers as exact
  integers and rationals rather than IEEE doubles, and its \<open>Result<T>\<close> union
  (\<open>types/index.ts\<close>) as a datatype.
\<close>

datatype 'a Result = Success 'a | Failure string

text \<open>
  What one \<open>await\<close> of an asynchronous collaborator can produce: a \<open>Result\<close> value, or
  a thrown fault, held as the text \<open>String(error)\<close> that every \<open>catch\<close> block of the
  source takes from it.
\<close>

datatype 'a Outcome = Returned "'a Result" | Thrown string

text \<open>
  \<open>String.prototype.toLowerCase\<close> on the Latin-1 range: the letters A to Z and the
  accented capitals U+00C0 to U+00DE (without the multiplication sign U+00D7) move up by 32;
  every other character is kept.
\<close>

definition upperChars :: "char list" where
  "upperChars = ''ABCDEFGHIJKLMNOPQRSTUVWXYZ'' @
     [CHR 0xC0, CHR 0xC1, CHR 0xC2, CHR 0xC3, CHR 0xC4, CHR 0xC5, CHR 0xC6, CHR 0xC7,
      CHR 0xC8, CHR 0xC9, CHR 0xCA, CHR 0xCB, CHR 0xCC, CHR 0xCD, CHR 0xCE, CHR 0xCF,
      CHR 0xD0, CHR 0xD1, CHR 0xD2, CHR 0xD3, CHR 0xD4, CHR 0xD5, CHR 0xD6,
      CHR 0xD8, CHR 0xD9, CHR 0xDA, CHR 0xDB, CHR 0xDC, CHR 0xDD, CHR 0xDE]"

definition lowerChars :: "char list" where
  "lowerChars = ''abcdefghijklmnopqrstuvwxyz'' @
     [CHR 0xE0, CHR 0xE1, CHR 0xE2, CHR 0xE3, CHR 0xE4, CHR 0xE5, CHR 0xE6, CHR 0xE7,
      CHR 0xE8, CHR 0xE9, CHR 0xEA, CHR 0xEB, CHR 0xEC, CHR 0xED, CHR 0xEE, CHR 0xEF,
      CHR 0xF0, CHR 0xF1, CHR 0xF2, CHR 0xF3, CHR 0xF4, CHR 0xF5, CHR 0xF6,
      CHR 0xF8, CHR 0xF9, CHR 0xFA, CHR 0xFB, CHR 0xFC, CHR 0xFD, CHR 0xFE]"

definition toLowerChar :: "char \<Rightarrow> char" where
  "toLowerChar c = (case map_of (zip upperChars lowerChars) c of Some l \<Rightarrow> l | None \<Rightarrow> c)"

definition toLowerCase :: "string \<Rightarrow> string" where
  "toLowerCase s = map toLowerChar s"

definition startsWith :: "string \<Rightarrow> string \<Rightarrow> bool" where
  "startsWith s p = (take (length p) s = p)"

text \<open>\<open>String.prototype.includes\<close>: the pattern occurs as a contiguous substring.\<close>

primrec includes_str :: "string \<Rightarrow> string \<Rightarrow> bool" where
  "includes_str [] p = (p = [])"
| "includes_str (c # cs) p = (startsWith (c # cs) p \<or> includes_str cs p)"

text \<open>Decimal rendering of a number inside a template literal.\<close>

definition digit_char :: "nat \<Rightarrow> char" where
  "digit_char d = ''0123456789'' ! d"

fun digits_of_nat :: "nat \<Rightarrow> string" where
  "digits_of_nat n =
     (if n < 10 then [digit_char n]
      else digits_of_nat (n div 10) @ [digit_char (n mod 10)])"

declare digits_of_nat.simps [simp del]

definition string_of_int :: "int \<Rightarrow> string" where
  "string_of_int i = (if i < 0 then ''-'' @ digits_of_nat (nat (- i)) else digits_of_nat (nat i))"

text \<open>\<open>a || b\<close> on an optional string: \<open>undefined\<close> and the empty string are falsy.\<close>

definition or_else :: "string option \<Rightarrow> string \<Rightarrow> string" where
  "or_else a b = (case a of None \<Rightarrow> b | Some s \<Rightarrow> if s = [] then b else s)"

section \<open>Scripts\<close>

datatype StepValue = StrValue string | NumValue int

record ActionStep =
  step_type :: string
  selector :: "string option"
  step_value :: "StepValue option"
  url :: "string option"
  timeout :: "int option"
  description :: "string option"

record AutomationScript =
  script_name :: string
  script_description :: "string option"
  baseUrl :: "string option"
  steps :: "ActionStep list"

section \<open>Error classifier\<close>

datatype ErrorType =
    NETWORK_ERROR | TIMEOUT_ERROR | ELEMENT_NOT_FOUND | ELEMENT_NOT_VISIBLE
  | ELEMENT_NOT_CLICKABLE | NAVIGATION_ERROR | SCREENSHOT_ERROR | VALIDATION_ERROR
  | BROWSER_ERROR | UNKNOWN_ERROR

text \<open>The string value of each enum member, as it appears in a template literal.\<close>

fun ErrorType_value :: "ErrorType \<Rightarrow> string" where
  "ErrorType_value NETWORK_ERROR = ''network_error''"
| "ErrorType_value TIMEOUT_ERROR = ''timeout_error''"
| "ErrorType_value ELEMENT_NOT_FOUND = ''element_not_found''"
| "ErrorType_value ELEMENT_NOT_VISIBLE = ''element_not_visible''"
| "ErrorType_value ELEMENT_NOT_CLICKABLE = ''element_not_clickable''"
| "ErrorType_value NAVIGATION_ERROR = ''navigation_error''"
| "ErrorType_value SCREENSHOT_ERROR = ''screenshot_error''"
| "ErrorType_value VALIDATION_ERROR = ''validation_error''"
| "ErrorType_value BROWSER_ERROR = ''browser_error''"
| "ErrorType_value UNKNOWN_ERROR = ''unknown_error''"

datatype Backoff = fixed | exponential | linear

text \<open>
  \<open>RetryStrategy\<close>. The optional \<open>recoveryActions\<close> field is set by no entry of the
  default table and by no caller, so it is left out of the record.
\<close>

record RetryStrategy =
  maxAttempts :: int
  delay :: int
  backoff :: Backoff

fun DEFAULT_RETRY_STRATEGIES :: "ErrorType \<Rightarrow> RetryStrategy" where
  "DEFAULT_RETRY_STRATEGIES NETWORK_ERROR =
     \<lparr>maxAttempts = 5, delay = 2000, backoff = exponential\<rparr>"
| "DEFAULT_RETRY_STRATEGIES TIMEOUT_ERROR =
     \<lparr>maxAttempts = 3, delay = 3000, backoff = linear\<rparr>"
| "DEFAULT_RETRY_STRATEGIES ELEMENT_NOT_FOUND =
     \<lparr>maxAttempts = 4, delay = 1500, backoff = fixed\<rparr>"
| "DEFAULT_RETRY_STRATEGIES ELEMENT_NOT_VISIBLE =
     \<lparr>maxAttempts = 3, delay = 1000, backoff = fixed\<rparr>"
| "DEFAULT_RETRY_STRATEGIES ELEMENT_NOT_CLICKABLE =
     \<lparr>maxAttempts = 3, delay = 1000, backoff = fixed\<rparr>"
| "DEFAULT_RETRY_STRATEGIES NAVIGATION_ERROR =
     \<lparr>maxAttempts = 3, delay = 2000, backoff = exponential\<rparr>"
| "DEFAULT_RETRY_STRATEGIES SCREENSHOT_ERROR =
     \<lparr>maxAttempts = 2, delay = 500, backoff = fixed\<rparr>"
| "DEFAULT_RETRY_STRATEGIES VALIDATION_ERROR =
     \<lparr>maxAttempts = 1, delay = 0, backoff = fixed\<rparr>"
| "DEFAULT_RETRY_STRATEGIES BROWSER_ERROR =
     \<lparr>maxAttempts = 2, delay = 3000, backoff = fixed\<rparr>"
| "DEFAULT_RETRY_STRATEGIES UNKNOWN_ERROR =
     \<lparr>maxAttempts = 2, delay = 1000, backoff = fixed\<rparr>"

record ErrorContext =
  ctx_step :: "ActionStep option"
  ctx_stepNumber :: "nat option"
  ctx_selector :: "string option"
  ctx_url :: "string option"

record ClassifiedError =
  ce_type :: ErrorType
  originalError :: string
  ce_message :: string
  isRetryable :: bool
  strategy :: "RetryStrategy option"
  ce_context :: ErrorContext

text \<open>\<open>step?.selector\<close> and \<open>step?.url\<close>.\<close>

definition step_selector :: "ActionStep option \<Rightarrow> string option" where
  "step_selector st = (case st of None \<Rightarrow> None | Some s \<Rightarrow> selector s)"

definition step_url :: "ActionStep option \<Rightarrow> string option" where
  "step_url st = (case st of None \<Rightarrow> None | Some s \<Rightarrow> url s)"

definition classifyError :: "string \<Rightarrow> ActionStep option \<Rightarrow> nat option \<Rightarrow> ClassifiedError" where
  "classifyError error st stepNumber =
    (let lowerError = toLowerCase error in
     if includes_str lowerError ''net::'' \<or> includes_str lowerError ''network''
        \<or> includes_str lowerError ''connection'' \<or> includes_str lowerError ''dns''
        \<or> includes_str lowerError ''refused''
     then \<lparr>ce_type = NETWORK_ERROR, originalError = error,
           ce_message = ''Network connection issue detected'', isRetryable = True,
           strategy = Some (DEFAULT_RETRY_STRATEGIES NETWORK_ERROR),
           ce_context = \<lparr>ctx_step = st, ctx_stepNumber = stepNumber,
                         ctx_selector = None, ctx_url = None\<rparr>\<rparr>
     else if includes_str lowerError ''timeout'' \<or> includes_str lowerError ''timed out''
        \<or> includes_str lowerError ''waiting for''
     then \<lparr>ce_type = TIMEOUT_ERROR, originalError = error,
           ce_message = ''Operation timed out'', isRetryable = True,
           strategy = Some (DEFAULT_RETRY_STRATEGIES TIMEOUT_ERROR),
           ce_context = \<lparr>ctx_step = st, ctx_stepNumber = stepNumber,
                         ctx_selector = step_selector st, ctx_url = None\<rparr>\<rparr>
     else if includes_str lowerError ''no element'' \<or> includes_str lowerError ''not found''
        \<or> includes_str lowerError ''cannot find''
        \<or> includes_str lowerError ''element not found''
     then \<lparr>ce_type = ELEMENT_NOT_FOUND, originalError = error,
           ce_message = ''Element not found: '' @ or_else (step_selector st) ''unknown selector'',
           isRetryable = True,
           strategy = Some (DEFAULT_RETRY_STRATEGIES ELEMENT_NOT_FOUND),
           ce_context = \<lparr>ctx_step = st, ctx_stepNumber = stepNumber,
                         ctx_selector = step_selector st, ctx_url = None\<rparr>\<rparr>
     else if includes_str lowerError ''not visible'' \<or> includes_str lowerError ''hidden''
        \<or> includes_str lowerError ''not displayed''
     then \<lparr>ce_type = ELEMENT_NOT_VISIBLE, originalError = error,
           ce_message = ''Element not visible: '' @ or_else (step_selector st) ''unknown selector'',
           isRetryable = True,
           strategy = Some (DEFAULT_RETRY_STRATEGIES ELEMENT_NOT_VISIBLE),
           ce_context = \<lparr>ctx_step = st, ctx_stepNumber = stepNumber,
                         ctx_selector = step_selector st, ctx_url = None\<rparr>\<rparr>
     else if includes_str lowerError ''not clickable''
        \<or> includes_str lowerError ''not interactable''
        \<or> includes_str lowerError ''element click intercepted''
     then \<lparr>ce_type = ELEMENT_NOT_CLICKABLE, originalError = error,
           ce_message = ''Element not clickable: '' @ or_else (step_selector st) ''unknown selector'',
           isRetryable = True,
           strategy = Some (DEFAULT_RETRY_STRATEGIES ELEMENT_NOT_CLICKABLE),
           ce_context = \<lparr>ctx_step = st, ctx_stepNumber = stepNumber,
                         ctx_selector = step_selector st, ctx_url = None\<rparr>\<rparr>
     else if includes_str lowerError ''navigation'' \<or> includes_str lowerError ''page crashed''
        \<or> includes_str lowerError ''page.goto''
     then \<lparr>ce_type = NAVIGATION_ERROR, originalError = error,
           ce_message = ''Navigation failed: '' @ or_else (step_url st) ''unknown URL'',
           isRetryable = True,
           strategy = Some (DEFAULT_RETRY_STRATEGIES NAVIGATION_ERROR),
           ce_context = \<lparr>ctx_step = st, ctx_stepNumber = stepNumber,
                         ctx_selector = None, ctx_url = step_url st\<rparr>\<rparr>
     else if includes_str lowerError ''screenshot''
     then \<lparr>ce_type = SCREENSHOT_ERROR, originalError = error,
           ce_message = ''Screenshot capture failed'', isRetryable = True,
           strategy = Some (DEFAULT_RETRY_STRATEGIES SCREENSHOT_ERROR),
           ce_context = \<lparr>ctx_step = st, ctx_stepNumber = stepNumber,
                         ctx_selector = None, ctx_url = None\<rparr>\<rparr>
     else if includes_str lowerError ''validation'' \<or> includes_str lowerError ''invalid''
     then \<lparr>ce_type = VALIDATION_ERROR, originalError = error,
           ce_message = ''Script validation failed'', isRetryable = False,
           strategy = Some (DEFAULT_RETRY_STRATEGIES VALIDATION_ERROR),
           ce_context = \<lparr>ctx_step = st, ctx_stepNumber = stepNumber,
                         ctx_selector = None, ctx_url = None\<rparr>\<rparr>
     else if includes_str lowerError ''browser'' \<or> includes_str lowerError ''context''
        \<or> includes_str lowerError ''playwright''
     then \<lparr>ce_type = BROWSER_ERROR, originalError = error,
           ce_message = ''Browser operation failed'', isRetryable = True,
           strategy = Some (DEFAULT_RETRY_STRATEGIES BROWSER_ERROR),
           ce_context = \<lparr>ctx_step = st, ctx_stepNumber = stepNumber,
                         ctx_selector = None, ctx_url = None\<rparr>\<rparr>
     else \<lparr>ce_type = UNKNOWN_ERROR, originalError = error,
           ce_message = ''Unknown error: '' @ error, isRetryable = True,
           strategy = Some (DEFAULT_RETRY_STRATEGIES UNKNOWN_ERROR),
           ce_context = \<lparr>ctx_step = st, ctx_stepNumber = stepNumber,
                         ctx_selector = None, ctx_url = None\<rparr>\<rparr>)"

text \<open>
  \<open>calculateRetryDelay\<close>. \<open>Math.pow(2, attempt - 1)\<close> is a fraction when the attempt number
  is below 1, so the result is a rational. The definition computes in exact arithmetic. The
  code computes in IEEE doubles, which give the same value as long as the operands and the
  result are safe integers (of magnitude at most \<open>2^53 - 1\<close>, as \<open>Number.isSafeInteger\<close>
  tests) and the power of two is finite (an exponent of at most 1023); beyond that range the
  code rounds or overflows and the definition does not follow it.
\<close>

definition safe_integer :: "int \<Rightarrow> bool" where
  "safe_integer k = (\<bar>k\<bar> \<le> 2 ^ 53 - 1)"

definition calculateRetryDelay :: "RetryStrategy \<Rightarrow> int \<Rightarrow> rat" where
  "calculateRetryDelay s attempt =
     (case backoff s of
        exponential \<Rightarrow> of_int (delay s) * 2 powi (attempt - 1)
      | linear \<Rightarrow> of_int (delay s) * of_int attempt
      | fixed \<Rightarrow> of_int (delay s))"


section \<open>Configuration\<close>

text \<open>\<open>AutoConfig\<close>, with the fields the test suites and the callers give it.\<close>

record Viewport =
  width :: int
  height :: int

record BrowserConfig =
  browser_type :: string
  headless :: bool
  viewport :: Viewport
  slowMo :: int
  browser_timeout :: int

record ActionsConfig =
  waitBetweenActions :: int
  retryAttempts :: int
  screenshotOnError :: bool

record LoggingConfig =
  logging_level :: string
  outputDir :: string
  saveScreenshots :: bool
  verbose :: bool

record AutoConfig =
  browser :: BrowserConfig
  actions :: ActionsConfig
  logging :: LoggingConfig

section \<open>Retry executor\<close>

text \<open>
  The effects of \<open>executeWithSmartRetry\<close>, in the order they happen: each call of the
  operation, each line it prints with \<open>console.log\<close> when \<open>logging.verbose\<close> is set
  (kept as its template's arguments), and each \<open>setTimeout\<close> suspension.
\<close>

datatype retry_notice =
    SucceededOnAttempt "nat option" int
  | FailedAttempt "nat option" int int string
  | RetryingIn rat

datatype retry_event = Invoked | ConsoleLog retry_notice | Slept rat

record ('a, 's) retry_run =
  run_result :: "'a Result"
  run_state :: 's
  run_events :: "retry_event list"

text \<open>The message built after the loop from \<open>lastError\<close> and the attempt counter.\<close>

definition finalMessage :: "ClassifiedError option \<Rightarrow> int \<Rightarrow> string" where
  "finalMessage lastError attempt =
     (case lastError of
        Some e \<Rightarrow> ce_message e @ '' ('' @ ErrorType_value (ce_type e) @ '', attempted ''
                   @ string_of_int attempt @ '' times)''
      | None \<Rightarrow> ''Operation failed with unknown error'')"

definition strategy_of :: "ClassifiedError \<Rightarrow> RetryStrategy" where
  "strategy_of e = (case strategy e of Some s \<Rightarrow> s | None \<Rightarrow> DEFAULT_RETRY_STRATEGIES (ce_type e))"

lemma maxAttempts_classifyError_le: "maxAttempts (strategy_of (classifyError err st sn)) \<le> 5"
  by (simp add: classifyError_def strategy_of_def Let_def)

text \<open>
  The \<open>while (true)\<close> loop of \<open>executeWithSmartRetry\<close>, from a given value of the
  \<open>attempt\<close> counter. The operation is a state transformer on the world it acts on; an
  \<open>await\<close> that rejects is the outcome \<open>Thrown\<close>. The loop goes round again only while
  the counter is below a per-kind ceiling of at most 5, which is its termination measure.
\<close>

function retry_loop ::
  "('s \<Rightarrow> 'a Outcome \<times> 's) \<Rightarrow> AutoConfig \<Rightarrow> ActionStep option \<Rightarrow> nat option \<Rightarrow> int \<Rightarrow> 's
   \<Rightarrow> ('a, 's) retry_run" where
  "retry_loop operation config st stepNumber attempt s =
     (case operation s of
        (Returned (Success d), s') \<Rightarrow>
          \<lparr>run_result = Success d, run_state = s',
           run_events = Invoked #
             (if attempt > 1 \<and> verbose (logging config)
              then [ConsoleLog (SucceededOnAttempt stepNumber attempt)] else [])\<rparr>
      | (Returned (Failure err), s') \<Rightarrow>
          (let classifiedError = classifyError err st stepNumber;
               strat = strategy_of classifiedError;
               maxA = min (maxAttempts strat) (retryAttempts (actions config))
           in if \<not> isRetryable classifiedError \<or> attempt \<ge> maxA
              then \<lparr>run_result = Failure (finalMessage (Some classifiedError) attempt),
                    run_state = s', run_events = [Invoked]\<rparr>
              else
                (let d = calculateRetryDelay strat attempt;
                     rest = retry_loop operation config st stepNumber (attempt + 1) s'
                 in rest\<lparr>run_events :=
                      Invoked #
                      (if verbose (logging config)
                       then [ConsoleLog (FailedAttempt stepNumber attempt maxA
                                           (ce_message classifiedError))] else []) @
                      (if verbose (logging config) \<and> d > 0 then [ConsoleLog (RetryingIn d)] else []) @
                      (if d > 0 then [Slept d] else []) @
                      run_events rest\<rparr>))
      | (Thrown unexpectedError, s') \<Rightarrow>
          \<lparr>run_result =
             Failure (finalMessage (Some (classifyError unexpectedError st stepNumber)) attempt),
           run_state = s', run_events = [Invoked]\<rparr>)"
  by pat_completeness auto
termination
  apply (relation "measure (\<lambda>(operation, config, st, stepNumber, attempt, s). nat (5 - attempt))")
   apply simp
  subgoal for operation config st stepNumber attempt s x y x1 err
    using maxAttempts_classifyError_le [of err st stepNumber]
    by (simp add: min_def split: if_splits)
  done

declare retry_loop.simps [simp del]

definition executeWithSmartRetry ::
  "('s \<Rightarrow> 'a Outcome \<times> 's) \<Rightarrow> AutoConfig \<Rightarrow> ActionStep option \<Rightarrow> nat option \<Rightarrow> 's
   \<Rightarrow> ('a, 's) retry_run" where
  "executeWithSmartRetry operation config st stepNumber s =
     retry_loop operation config st stepNumber 1 s"

text \<open>How many times the operation was called.\<close>

definition invocations :: "('a, 's) retry_run \<Rightarrow> nat" where
  "invocations r = count_list (run_events r) Invoked"


section \<open>Session logger\<close>

text \<open>
  Structured payloads (\<open>data?: any\<close>) are kept as JSON-like values. A missing optional
  argument is \<open>None\<close>; a property whose value is \<open>undefined\<close> is \<open>JUndefined\<close>.
\<close>

datatype json =
    JUndefined | JNull | JBool bool | JNum int | JStr string
  | JArr "json list" | JObj "(string \<times> json) list"

text \<open>Truthiness of an optional payload, as in \<open>entry.data && ...\<close>.\<close>

fun truthy :: "json option \<Rightarrow> bool" where
  "truthy None = False"
| "truthy (Some JUndefined) = False"
| "truthy (Some JNull) = False"
| "truthy (Some (JBool b)) = b"
| "truthy (Some (JNum n)) = (n \<noteq> 0)"
| "truthy (Some (JStr t)) = (t \<noteq> [])"
| "truthy (Some (JArr xs)) = True"
| "truthy (Some (JObj fs)) = True"

definition json_opt_str :: "string option \<Rightarrow> json" where
  "json_opt_str x = (case x of None \<Rightarrow> JUndefined | Some t \<Rightarrow> JStr t)"

datatype LogLevel = DEBUG | INFO | WARN | ERROR

text \<open>The numeric value of each member of the enum, and its reverse mapping to a name.\<close>

fun level_value :: "LogLevel \<Rightarrow> nat" where
  "level_value DEBUG = 0"
| "level_value INFO = 1"
| "level_value WARN = 2"
| "level_value ERROR = 3"

fun level_name :: "LogLevel \<Rightarrow> string" where
  "level_name DEBUG = ''DEBUG''"
| "level_name INFO = ''INFO''"
| "level_name WARN = ''WARN''"
| "level_name ERROR = ''ERROR''"

text \<open>
  A log entry. Timestamps are milliseconds since the epoch. The optional \<open>screenshot\<close>
  field of the interface is assigned nowhere and is left out.
\<close>

record LogEntry =
  timestamp :: int
  level :: LogLevel
  category :: string
  message :: string
  data :: "json option"
  entry_step :: "nat option"
  duration :: "int option"

datatype LogFormat = json_format | text_format | structured_format

record LoggerConfig =
  min_level :: LogLevel
  logger_outputDir :: string
  enableFileLogging :: bool
  enableConsoleLogging :: bool
  format :: LogFormat
  maxFileSize :: nat
  maxFiles :: nat
  includeTimestamp :: bool
  includeStackTrace :: bool

datatype ScreenshotType = shot_success | shot_error | shot_debug

record ScreenshotInfo =
  shot_filename :: string
  shot_path :: string
  shot_timestamp :: int
  shot_step :: "nat option"
  shot_type :: ScreenshotType
  shot_size :: int

text \<open>
  The two sinks are modelled as the sequences of writes the logger issues to them. A console
  write is the console method called and what it prints: the formatted line of an entry
  (colour code, clock time, icon, level name, step, message and duration, all taken from the
  entry) or the JSON dump of its payload. A file write is one \<open>writeFile\<close> call in append
  mode on the session's log file, holding the entry it formats. What the file system does
  with an append (and the size check and rotation that follow it) is outside the model.
\<close>

datatype console_method = console_log | console_warn | console_error

datatype console_write =
    ConsoleLine console_method LogEntry
  | ConsoleData console_method json

record file_write =
  file_path :: string
  file_format :: LogFormat
  file_entry :: LogEntry

record Logger =
  logger_config :: LoggerConfig
  logBuffer :: "LogEntry list"
  sessionId :: string
  logFilePath :: string
  screenshots :: "ScreenshotInfo list"
  console_sink :: "console_write list"
  file_sink :: "file_write list"

text \<open>
  \<open>createLoggerConfig\<close>. The level is \<open>levelMap[autoConfig.logging.level] || LogLevel.INFO\<close>:
  a name outside the map gives \<open>undefined\<close>, and \<open>LogLevel.DEBUG\<close> is 0; both are falsy.
\<close>

definition levelMap :: "string \<Rightarrow> LogLevel option" where
  "levelMap name =
     (if name = ''debug'' then Some DEBUG
      else if name = ''info'' then Some INFO
      else if name = ''warn'' then Some WARN
      else if name = ''error'' then Some ERROR
      else None)"

definition createLoggerConfig :: "AutoConfig \<Rightarrow> LoggerConfig" where
  "createLoggerConfig autoConfig =
     \<lparr>min_level =
        (case levelMap (logging_level (logging autoConfig)) of
           None \<Rightarrow> INFO
         | Some l \<Rightarrow> if level_value l = 0 then INFO else l),
      logger_outputDir = outputDir (logging autoConfig),
      enableFileLogging = True,
      enableConsoleLogging = True,
      format = structured_format,
      maxFileSize = 50,
      maxFiles = 10,
      includeTimestamp = True,
      includeStackTrace = (logging_level (logging autoConfig) = ''debug'')\<rparr>"

text \<open>
  The constructor. The generated session id (clock time and a random suffix) and
  \<open>path.join\<close> are given from outside; creating the output directories is not modelled.
\<close>

definition new_Logger :: "(string \<Rightarrow> string \<Rightarrow> string) \<Rightarrow> string \<Rightarrow> AutoConfig \<Rightarrow> Logger" where
  "new_Logger join sid autoConfig =
     \<lparr>logger_config = createLoggerConfig autoConfig,
      logBuffer = [],
      sessionId = sid,
      logFilePath = join (logger_outputDir (createLoggerConfig autoConfig))
                         (''execution-'' @ sid @ ''.log''),
      screenshots = [],
      console_sink = [],
      file_sink = []\<rparr>"

definition writeToConsole :: "LogEntry \<Rightarrow> Logger \<Rightarrow> Logger" where
  "writeToConsole entry lg =
     (case level entry of
        ERROR \<Rightarrow>
          lg\<lparr>console_sink := console_sink lg @ ConsoleLine console_error entry #
                (if truthy (data entry) \<and> includeStackTrace (logger_config lg)
                 then [ConsoleData console_error (the (data entry))] else [])\<rparr>
      | WARN \<Rightarrow> lg\<lparr>console_sink := console_sink lg @ [ConsoleLine console_warn entry]\<rparr>
      | _ \<Rightarrow>
          lg\<lparr>console_sink := console_sink lg @ ConsoleLine console_log entry #
                (if truthy (data entry) \<and> level entry = DEBUG
                 then [ConsoleData console_log (the (data entry))] else [])\<rparr>)"

definition writeToFile :: "LogEntry \<Rightarrow> Logger \<Rightarrow> Logger" where
  "writeToFile entry lg =
     lg\<lparr>file_sink := file_sink lg @
          [\<lparr>file_path = logFilePath lg, file_format = format (logger_config lg), file_entry = entry\<rparr>]\<rparr>"

text \<open>
  \<open>Logger.log\<close>, the main logging method. Its first argument is the value of
  \<open>new Date()\<close> at the call.
\<close>

definition Logger_log ::
  "int \<Rightarrow> LogLevel \<Rightarrow> string \<Rightarrow> string \<Rightarrow> json option \<Rightarrow> nat option \<Rightarrow> int option
   \<Rightarrow> Logger \<Rightarrow> Logger" where
  "Logger_log now lvl cat msg dat stp dur lg =
     (if level_value lvl < level_value (min_level (logger_config lg)) then lg
      else
        let entry = \<lparr>timestamp = now, level = lvl, category = cat, message = msg, data = dat,
                     entry_step = stp, duration = dur\<rparr>;
            lg1 = lg\<lparr>logBuffer := logBuffer lg @ [entry]\<rparr>;
            lg2 = (if enableConsoleLogging (logger_config lg1) then writeToConsole entry lg1 else lg1)
        in if enableFileLogging (logger_config lg2) then writeToFile entry lg2 else lg2)"

definition Logger_debug :: "int \<Rightarrow> string \<Rightarrow> json option \<Rightarrow> nat option \<Rightarrow> Logger \<Rightarrow> Logger" where
  "Logger_debug now msg dat stp = Logger_log now DEBUG ''debug'' msg dat stp None"

definition Logger_info :: "int \<Rightarrow> string \<Rightarrow> json option \<Rightarrow> nat option \<Rightarrow> Logger \<Rightarrow> Logger" where
  "Logger_info now msg dat stp = Logger_log now INFO ''info'' msg dat stp None"

definition Logger_warn :: "int \<Rightarrow> string \<Rightarrow> json option \<Rightarrow> nat option \<Rightarrow> Logger \<Rightarrow> Logger" where
  "Logger_warn now msg dat stp = Logger_log now WARN ''warn'' msg dat stp None"

definition Logger_error :: "int \<Rightarrow> string \<Rightarrow> json option \<Rightarrow> nat option \<Rightarrow> Logger \<Rightarrow> Logger" where
  "Logger_error now msg dat stp = Logger_log now ERROR ''error'' msg dat stp None"

definition Logger_step ::
  "int \<Rightarrow> nat \<Rightarrow> string \<Rightarrow> string \<Rightarrow> int option \<Rightarrow> bool \<Rightarrow> Logger \<Rightarrow> Logger" where
  "Logger_step now stepNumber action msg dur ok =
     Logger_log now (if ok then INFO else ERROR) (''step-'' @ action) msg
       (Some (JObj [(''stepNumber'', JNum (int stepNumber)), (''action'', JStr action),
                    (''success'', JBool ok)]))
       (Some stepNumber) dur"

text \<open>\<open>Logger.browser\<close>; the payload is \<open>{action, ...data}\<close>.\<close>

definition Logger_browser ::
  "int \<Rightarrow> string \<Rightarrow> string \<Rightarrow> (string \<times> json) list \<Rightarrow> Logger \<Rightarrow> Logger" where
  "Logger_browser now action msg dat =
     Logger_log now INFO ''browser'' msg (Some (JObj ((''action'', JStr action) # dat)))
       None None"

definition Logger_validation ::
  "int \<Rightarrow> string \<Rightarrow> json list option \<Rightarrow> string list option \<Rightarrow> Logger \<Rightarrow> Logger" where
  "Logger_validation now msg errors warnings =
     Logger_log now
       (if (case errors of None \<Rightarrow> False | Some es \<Rightarrow> es \<noteq> []) then ERROR
        else if (case warnings of None \<Rightarrow> False | Some ws \<Rightarrow> ws \<noteq> []) then WARN
        else INFO)
       ''validation'' msg
       (Some (JObj [(''errors'', case errors of None \<Rightarrow> JUndefined | Some es \<Rightarrow> JArr es),
                    (''warnings'', case warnings of None \<Rightarrow> JUndefined
                                   | Some ws \<Rightarrow> JArr (map JStr ws))]))
       None None"

text \<open>\<open>screenshotPath.split('/').pop() || 'unknown'\<close>.\<close>

definition last_segment :: "string \<Rightarrow> string" where
  "last_segment p = rev (takeWhile (\<lambda>c. c \<noteq> CHR ''/'') (rev p))"

definition screenshot_type_name :: "ScreenshotType \<Rightarrow> string" where
  "screenshot_type_name t =
     (case t of shot_success \<Rightarrow> ''success'' | shot_error \<Rightarrow> ''error'' | shot_debug \<Rightarrow> ''debug'')"

definition screenshot_json :: "ScreenshotInfo \<Rightarrow> json" where
  "screenshot_json i =
     JObj [(''filename'', JStr (shot_filename i)), (''path'', JStr (shot_path i)),
           (''timestamp'', JNum (shot_timestamp i)),
           (''step'', case shot_step i of None \<Rightarrow> JUndefined | Some n \<Rightarrow> JNum (int n)),
           (''type'', JStr (screenshot_type_name (shot_type i))), (''size'', JNum (shot_size i))]"

text \<open>
  \<open>Logger.screenshot\<close>. \<open>stat\<close> is the outcome of \<open>fs.stat\<close> on the path: the file size,
  or the text of the error it rejects with. \<open>now\<close> and \<open>now'\<close> are the two clock readings
  of the success branch (the metadata's timestamp and the entry's).
\<close>

definition Logger_screenshot ::
  "int \<Rightarrow> int \<Rightarrow> string + int \<Rightarrow> string \<Rightarrow> nat option \<Rightarrow> ScreenshotType \<Rightarrow> Logger \<Rightarrow> Logger" where
  "Logger_screenshot now now' stat screenshotPath stp typ lg =
     (case stat of
        Inr sz \<Rightarrow>
          (let screenshotInfo =
                 \<lparr>shot_filename = or_else (Some (last_segment screenshotPath)) ''unknown'',
                  shot_path = screenshotPath, shot_timestamp = now, shot_step = stp,
                  shot_type = typ, shot_size = sz\<rparr>
           in Logger_log now' INFO ''screenshot''
                (''Screenshot captured: '' @ shot_filename screenshotInfo)
                (Some (screenshot_json screenshotInfo)) stp None
                (lg\<lparr>screenshots := screenshots lg @ [screenshotInfo]\<rparr>))
      | Inl err \<Rightarrow>
          Logger_error now ''Failed to process screenshot metadata''
            (Some (JObj [(''error'', JStr err), (''path'', JStr screenshotPath)])) None lg)"

text \<open>\<open>getSessionSummary\<close>. \<open>logsByLevel\<close> is the record built by the \<open>reduce\<close>.\<close>

record SessionSummary =
  summary_sessionId :: string
  totalLogs :: nat
  logsByLevel :: "string \<rightharpoonup> nat"
  summary_screenshots :: "ScreenshotInfo list"
  summary_duration :: int
  summary_logFilePath :: string

definition count_level :: "(string \<rightharpoonup> nat) \<Rightarrow> LogEntry \<Rightarrow> (string \<rightharpoonup> nat)" where
  "count_level acc entry =
     acc(level_name (level entry) \<mapsto>
           (case acc (level_name (level entry)) of None \<Rightarrow> 0 | Some n \<Rightarrow> n) + 1)"

definition getSessionSummary :: "Logger \<Rightarrow> SessionSummary" where
  "getSessionSummary lg =
     \<lparr>summary_sessionId = sessionId lg,
      totalLogs = length (logBuffer lg),
      logsByLevel = foldl count_level Map.empty (logBuffer lg),
      summary_screenshots = screenshots lg,
      summary_duration =
        (case logBuffer lg of [] \<Rightarrow> 0
         | e # es \<Rightarrow> timestamp (last (e # es)) - timestamp e),
      summary_logFilePath = logFilePath lg\<rparr>"

text \<open>\<open>getExecutionTimeline\<close>: a filtered copy of the buffer, sorted (stably) by time.\<close>

definition getExecutionTimeline :: "Logger \<Rightarrow> LogEntry list" where
  "getExecutionTimeline lg =
     sort_key timestamp
       (filter (\<lambda>entry. startsWith (category entry) ''step-'' \<or> category entry = ''browser'')
               (logBuffer lg))"

text \<open>
  \<open>exportLogs\<close>: what is handed to \<open>writeFile\<close>. The JSON export holds the session id, the
  summary, the whole buffer and the timeline; the CSV export holds one row per buffer entry.
\<close>

datatype export_format = export_json | export_csv

datatype export_data =
    JsonExport string SessionSummary "LogEntry list" "LogEntry list"
  | CsvExport "LogEntry list"

definition exportLogs :: "export_format \<Rightarrow> Logger \<Rightarrow> export_data" where
  "exportLogs fmt lg =
     (case fmt of
        export_json \<Rightarrow>
          JsonExport (sessionId lg) (getSessionSummary lg) (logBuffer lg) (getExecutionTimeline lg)
      | export_csv \<Rightarrow> CsvExport (logBuffer lg))"

definition summary_json :: "SessionSummary \<Rightarrow> json" where
  "summary_json sm =
     JObj [(''sessionId'', JStr (summary_sessionId sm)),
           (''totalLogs'', JNum (int (totalLogs sm))),
           (''logsByLevel'',
              JObj (concat (map (\<lambda>l. case logsByLevel sm (level_name l) of
                                        None \<Rightarrow> [] | Some n \<Rightarrow> [(level_name l, JNum (int n))])
                                [DEBUG, INFO, WARN, ERROR]))),
           (''screenshots'', JArr (map screenshot_json (summary_screenshots sm))),
           (''duration'', JNum (summary_duration sm)),
           (''logFilePath'', JStr (summary_logFilePath sm))]"

text \<open>
  \<open>cleanup\<close>: one last entry, written to the file only (it goes through \<open>writeToFile\<close>,
  not through \<open>log\<close>), when file logging is on and the buffer is not empty.
\<close>

definition Logger_cleanup :: "int \<Rightarrow> Logger \<Rightarrow> Logger" where
  "Logger_cleanup now lg =
     (if enableFileLogging (logger_config lg) \<and> length (logBuffer lg) > 0
      then writeToFile
             \<lparr>timestamp = now, level = INFO, category = ''session'',
              message = ''Session completed'',
              data = Some (summary_json (getSessionSummary lg)),
              entry_step = None, duration = None\<rparr> lg
      else lg)"

section \<open>Script validator\<close>

record ValidationError =
  ve_field :: string
  ve_message :: string
  ve_step :: "nat option"

record ValidationResult =
  vr_valid :: bool
  vr_errors :: "ValidationError list"
  vr_warnings :: "string list"

text \<open>\<open>String.prototype.trim\<close> on the Latin-1 range.\<close>

definition is_space :: "char \<Rightarrow> bool" where
  "is_space c = (c \<in> set [CHR 0x09, CHR 0x0A, CHR 0x0B, CHR 0x0C, CHR 0x0D, CHR 0x20, CHR 0xA0])"

definition trim :: "string \<Rightarrow> string" where
  "trim t = rev (dropWhile is_space (rev (dropWhile is_space t)))"

text \<open>A string-valued optional property used as a condition: present and not empty.\<close>

definition present :: "string option \<Rightarrow> bool" where
  "present x = (case x of None \<Rightarrow> False | Some t \<Rightarrow> t \<noteq> [])"

definition isValidSelector :: "string \<Rightarrow> bool" where
  "isValidSelector sel =
     (if length (trim sel) = 0 then False
      else if includes_str sel ''>>'' \<or> includes_str sel ''<<<'' then False
      else if startsWith sel ''.'' \<and> length sel = 1 then False
      else if startsWith sel ''#'' \<and> length sel = 1 then False
      else True)"

text \<open>
  The validator pushes onto two arrays, \<open>errors\<close> and \<open>warnings\<close>. Each function below
  returns what the source function pushes onto one of them, in push order. \<open>isValidUrl\<close>
  (can \<open>new URL\<close> parse the text) is a parameter.
\<close>

definition validateScriptFields :: "(string \<Rightarrow> bool) \<Rightarrow> AutomationScript \<Rightarrow> ValidationError list" where
  "validateScriptFields isValidUrl script =
     (if trim (script_name script) = []
      then [\<lparr>ve_field = ''name'', ve_message = ''Script name cannot be empty'', ve_step = None\<rparr>]
      else []) @
     (if present (baseUrl script) \<and> \<not> isValidUrl (the (baseUrl script))
      then [\<lparr>ve_field = ''baseUrl'', ve_message = ''Base URL must be a valid URL'',
              ve_step = None\<rparr>]
      else [])"

text \<open>The \<open>for\<close> loop of \<open>checkStepPatterns\<close> over the pairs of neighbouring steps.\<close>

fun neighbour_warnings :: "nat \<Rightarrow> ActionStep list \<Rightarrow> string list" where
  "neighbour_warnings i (current # next # rest) =
     (if step_type current = ''navigate'' \<and> step_type next \<noteq> ''wait''
      then [''Step '' @ string_of_int (int i + 1) @
            '': Consider adding a wait after navigation for better reliability'']
      else []) @
     (if step_type current = ''click'' \<and> step_type next = ''click''
         \<and> \<not> list_ex (\<lambda>x. step_type x = ''wait'') [next]
      then [''Step '' @ string_of_int (int i + 1) @
            '': Multiple consecutive clicks without wait may cause issues'']
      else []) @
     neighbour_warnings (Suc i) (next # rest)"
| "neighbour_warnings i [current] = []"
| "neighbour_warnings i [] = []"

definition checkStepPatterns :: "ActionStep list \<Rightarrow> string list" where
  "checkStepPatterns sts =
     neighbour_warnings 0 sts @
     (if length sts > 10 \<and> \<not> list_ex (\<lambda>x. step_type x = ''screenshot'') sts
      then [''Long script without screenshots - consider adding screenshots for debugging'']
      else [])"

definition validateStepType :: "ActionStep \<Rightarrow> nat \<Rightarrow> string list" where
  "validateStepType st stepNumber =
     (if step_type st = ''type'' then
        (case step_value st of
           Some (StrValue t) \<Rightarrow>
             if length t > 1000
             then [''Step '' @ string_of_int (int stepNumber) @ '': Very long text input ('' @
                   string_of_int (int (length t)) @ '' chars)'']
             else []
         | _ \<Rightarrow> [])
      else if step_type st = ''wait'' then
        (case timeout st of
           Some t \<Rightarrow>
             if t \<noteq> 0 \<and> t < 100
             then [''Step '' @ string_of_int (int stepNumber) @ '': Very short wait time ('' @
                   string_of_int t @ ''ms)'']
             else []
         | None \<Rightarrow> [])
      else if step_type st = ''navigate'' then
        (if present (url st) \<and> startsWith (the (url st)) ''file://''
         then [''Step '' @ string_of_int (int stepNumber) @
               '': Local file URLs may not work in all browsers'']
         else [])
      else if step_type st = ''scroll'' then
        (case step_value st of
           Some (NumValue n) \<Rightarrow>
             if n \<noteq> 0 \<and> \<bar>n\<bar> > 10000
             then [''Step '' @ string_of_int (int stepNumber) @ '': Large scroll distance ('' @
                   string_of_int n @ ''px)'']
             else []
         | _ \<Rightarrow> [])
      else [])"

definition validateStep_errors :: "(string \<Rightarrow> bool) \<Rightarrow> ActionStep \<Rightarrow> nat \<Rightarrow> ValidationError list" where
  "validateStep_errors isValidUrl st stepNumber =
     (if present (selector st) \<and> \<not> isValidSelector (the (selector st))
      then [\<lparr>ve_field = ''selector'', ve_message = ''Invalid CSS selector format'',
              ve_step = Some stepNumber\<rparr>]
      else []) @
     (if present (url st) \<and> \<not> isValidUrl (the (url st))
      then [\<lparr>ve_field = ''url'', ve_message = ''Invalid URL format'', ve_step = Some stepNumber\<rparr>]
      else []) @
     (case timeout st of
        Some t \<Rightarrow>
          if t < 0
          then [\<lparr>ve_field = ''timeout'', ve_message = ''Timeout cannot be negative'',
                  ve_step = Some stepNumber\<rparr>]
          else []
      | None \<Rightarrow> [])"

definition validateStep_warnings :: "ActionStep \<Rightarrow> nat \<Rightarrow> string list" where
  "validateStep_warnings st stepNumber =
     (case timeout st of
        Some t \<Rightarrow>
          if \<not> t < 0 \<and> t > 60000
          then [''Step '' @ string_of_int (int stepNumber) @
                '': Timeout over 60 seconds may be too long'']
          else []
      | None \<Rightarrow> []) @
     validateStepType st stepNumber"

text \<open>\<open>steps.forEach((step, index) => validateStep(step, index + 1, ...))\<close>.\<close>

definition numbered :: "'a list \<Rightarrow> ('a \<times> nat) list" where
  "numbered xs = zip xs (map Suc [0..<length xs])"

definition validateScript :: "(string \<Rightarrow> bool) \<Rightarrow> AutomationScript \<Rightarrow> ValidationResult" where
  "validateScript isValidUrl script =
     (let fieldErrors = validateScriptFields isValidUrl script;
          stepErrors =
            (if length (steps script) = 0
             then [\<lparr>ve_field = ''steps'', ve_message = ''Script must have at least one step'',
                     ve_step = None\<rparr>]
             else concat (map (\<lambda>(st, n). validateStep_errors isValidUrl st n)
                              (numbered (steps script))));
          stepWarnings =
            (if length (steps script) = 0 then []
             else checkStepPatterns (steps script) @
                  concat (map (\<lambda>(st, n). validateStep_warnings st n) (numbered (steps script))))
      in \<lparr>vr_valid = (length (fieldErrors @ stepErrors) = 0),
          vr_errors = fieldErrors @ stepErrors,
          vr_warnings = stepWarnings\<rparr>)"

text \<open>
  \<open>formatValidationResults\<close>. The three pictographs that open its heading lines lie outside
  Latin-1 and are parameters; the lines are joined with a line feed.
\<close>

record icons =
  icon_passed :: string
  icon_failed :: string
  icon_warning :: string

fun join_lines :: "string list \<Rightarrow> string" where
  "join_lines [] = []"
| "join_lines [l] = l"
| "join_lines (l # ls) = l @ [CHR 0x0A] @ join_lines ls"

definition formatValidationResults :: "icons \<Rightarrow> ValidationResult \<Rightarrow> string" where
  "formatValidationResults ic res =
     join_lines
       ((if vr_valid res then [icon_passed ic @ '' Script validation passed'']
         else [icon_failed ic @ '' Script validation failed'', []] @
              map (\<lambda>e. ''Error in '' @ ve_field e @
                        (case ve_step e of
                           None \<Rightarrow> []
                         | Some n \<Rightarrow> if n = 0 then []
                                     else '' (Step '' @ string_of_int (int n) @ '')'') @
                        '': '' @ ve_message e)
                  (vr_errors res)) @
        (if length (vr_warnings res) > 0
         then [[], icon_warning ic @ ''  Warnings:''] @ map (\<lambda>w. ''  '' @ w) (vr_warnings res)
         else []))"

section \<open>Browser controller and the outside world\<close>

text \<open>
  The browser, its context and its page are opaque handles of the browser driver. A
  \<open>BrowserController\<close> holds three nullable handles (its optional reference to the logger is
  the session's one logger and is not repeated here).
\<close>

type_synonym handle = nat

record BrowserController =
  bc_browser :: "handle option"
  bc_context :: "handle option"
  bc_page :: "handle option"

text \<open>
  Everything outside the engine is a state \<open>'w\<close> (browser, pages, file system) with the
  operations below on it. A driver or file-system call that can reject returns
  \<open>Some text\<close> when it does, the text being \<open>String(error)\<close>. \<open>initializeBrowser\<close> and
  \<open>executeActionStep\<close> are taken whole, as the engine's own test suite takes them: they act
  on the world and on the logger they are handed, and settle with a \<open>Result\<close> or a fault.
  The clock is the sequence of values that successive \<open>Date\<close> readings give.
\<close>

record 'w env =
  isValidUrl :: "string \<Rightarrow> bool"
  validation_icons :: icons
  path_join :: "string \<Rightarrow> string \<Rightarrow> string"
  generateSessionId :: string
  clock :: "nat \<Rightarrow> int"
  toISOString :: "int \<Rightarrow> string"
  initializeBrowser ::
    "AutoConfig \<Rightarrow> 'w \<times> Logger \<Rightarrow> BrowserController Outcome \<times> ('w \<times> Logger)"
  executeActionStep ::
    "handle \<Rightarrow> ActionStep \<Rightarrow> AutoConfig \<Rightarrow> nat \<Rightarrow> 'w \<times> Logger
     \<Rightarrow> string option Outcome \<times> ('w \<times> Logger)"
  existsSync :: "string \<Rightarrow> 'w \<Rightarrow> bool"
  mkdir :: "string \<Rightarrow> 'w \<Rightarrow> string option \<times> 'w"
  fs_stat :: "string \<Rightarrow> 'w \<Rightarrow> string + int"
  page_screenshot :: "handle \<Rightarrow> string \<Rightarrow> 'w \<Rightarrow> string option \<times> 'w"
  page_close :: "handle \<Rightarrow> 'w \<Rightarrow> string option \<times> 'w"
  context_close :: "handle \<Rightarrow> 'w \<Rightarrow> string option \<times> 'w"
  browser_close :: "handle \<Rightarrow> 'w \<Rightarrow> string option \<times> 'w"

text \<open>The calls that leave the engine, in the order they are made.\<close>

datatype call =
    InitializeBrowser | ExecuteActionStep nat | Mkdir string | PageScreenshot string
  | CloseBrowser | PageClose | ContextClose | BrowserClose | LoggerCleanup

datatype LogStatus = status_success | status_error | status_warning

record ExecutionLog =
  log_step :: nat
  log_action :: string
  log_status :: LogStatus
  log_message :: string
  log_timestamp :: int
  log_duration :: "int option"

text \<open>
  The state of one run of \<open>executeScript\<close>: the world, the session logger, the trace of
  outgoing calls, the number of clock readings taken, what the retry executor printed and
  slept, and the function's local variables \<open>stepsExecuted\<close>, \<open>logs\<close> and \<open>screenshots\<close>.
\<close>

record 'w Run =
  world :: 'w
  logger :: Logger
  calls :: "call list"
  reads :: nat
  retry_events :: "retry_event list"
  var_stepsExecuted :: nat
  var_logs :: "ExecutionLog list"
  var_screenshots :: "string list"

definition date_now :: "'w env \<Rightarrow> 'w Run \<Rightarrow> int" where
  "date_now env m = clock env (reads m)"

definition tick :: "'w Run \<Rightarrow> 'w Run" where
  "tick m = m\<lparr>reads := Suc (reads m)\<rparr>"

definition record_call :: "call \<Rightarrow> 'w Run \<Rightarrow> 'w Run" where
  "record_call c m = m\<lparr>calls := calls m @ [c]\<rparr>"

text \<open>
  A call of a logger method: it is handed the next clock reading (whether or not the entry
  passes the level test and uses it).
\<close>

definition logger_call :: "'w env \<Rightarrow> (int \<Rightarrow> Logger \<Rightarrow> Logger) \<Rightarrow> 'w Run \<Rightarrow> 'w Run" where
  "logger_call env f m = (tick m)\<lparr>logger := f (date_now env m) (logger m)\<rparr>"

definition collaborator ::
  "('w \<times> Logger \<Rightarrow> 'a \<times> ('w \<times> Logger)) \<Rightarrow> 'w Run \<Rightarrow> 'a \<times> 'w Run" where
  "collaborator f m =
     (case f (world m, logger m) of (out, (w', lg')) \<Rightarrow> (out, m\<lparr>world := w', logger := lg'\<rparr>))"

definition primitive :: "('w \<Rightarrow> 'a \<times> 'w) \<Rightarrow> 'w Run \<Rightarrow> 'a \<times> 'w Run" where
  "primitive f m = (case f (world m) of (out, w') \<Rightarrow> (out, m\<lparr>world := w'\<rparr>))"

text \<open>
  \<open>closeBrowser\<close>: page, context and browser are closed in this order inside one \<open>try\<close>
  block, so the first close that rejects ends the function with a failure \<open>Result\<close>.
\<close>

definition closeBrowser :: "'w env \<Rightarrow> BrowserController \<Rightarrow> 'w Run \<Rightarrow> unit Result \<times> 'w Run" where
  "closeBrowser env controller m0 =
     (let m = record_call CloseBrowser m0;
          (e1, m1) = (case bc_page controller of
                        None \<Rightarrow> (None, m)
                      | Some h \<Rightarrow> primitive (page_close env h) (record_call PageClose m))
      in case e1 of
           Some err \<Rightarrow> (Failure (''Failed to close browser: '' @ err), m1)
         | None \<Rightarrow>
            (let (e2, m2) = (case bc_context controller of
                               None \<Rightarrow> (None, m1)
                             | Some h \<Rightarrow> primitive (context_close env h)
                                           (record_call ContextClose m1))
             in case e2 of
                  Some err \<Rightarrow> (Failure (''Failed to close browser: '' @ err), m2)
                | None \<Rightarrow>
                   (let (e3, m3) = (case bc_browser controller of
                                      None \<Rightarrow> (None, m2)
                                    | Some h \<Rightarrow> primitive (browser_close env h)
                                                  (record_call BrowserClose m2))
                    in case e3 of
                         Some err \<Rightarrow> (Failure (''Failed to close browser: '' @ err), m3)
                       | None \<Rightarrow> (Success (), m3))))"

definition json_opt_nat :: "nat option \<Rightarrow> json" where
  "json_opt_nat x = (case x of None \<Rightarrow> JUndefined | Some n \<Rightarrow> JNum (int n))"

text \<open>The \<open>catch\<close> block of \<open>takeScreenshot\<close>.\<close>

definition takeScreenshot_failed ::
  "'w env \<Rightarrow> string option \<Rightarrow> nat option \<Rightarrow> string \<Rightarrow> 'w Run \<Rightarrow> string Result \<times> 'w Run" where
  "takeScreenshot_failed env pth stp err m =
     (let errorMsg = ''Failed to take screenshot: '' @ err
      in (Failure errorMsg,
          logger_call env
            (\<lambda>t. Logger_error t errorMsg
                   (Some (JObj [(''path'', json_opt_str pth), (''error'', JStr err),
                                (''step'', json_opt_nat stp)])) None) m))"

text \<open>\<open>await logger.screenshot(...)\<close>: one \<open>fs.stat\<close> and two clock readings.\<close>

definition logger_screenshot_call ::
  "'w env \<Rightarrow> string \<Rightarrow> nat option \<Rightarrow> ScreenshotType \<Rightarrow> 'w Run \<Rightarrow> 'w Run" where
  "logger_screenshot_call env screenshotPath stp typ m =
     (tick (tick m))\<lparr>logger :=
        Logger_screenshot (date_now env m) (date_now env (tick m))
          (fs_stat env screenshotPath (world m)) screenshotPath stp typ (logger m)\<rparr>"

text \<open>
  \<open>takeScreenshot\<close>, with the logger always passed (as \<open>executeScript\<close> does). The screenshot
  is registered with the logger under the type 'success', also when it is taken for a failed
  step.
\<close>

definition takeScreenshot ::
  "'w env \<Rightarrow> handle \<Rightarrow> AutoConfig \<Rightarrow> string option \<Rightarrow> nat option \<Rightarrow> 'w Run
   \<Rightarrow> string Result \<times> 'w Run" where
  "takeScreenshot env page config pth stp m0 =
     (let stamp = map (\<lambda>c. if c = CHR '':'' \<or> c = CHR ''.'' then CHR ''-'' else c)
                      (toISOString env (date_now env m0));
          m1 = tick m0;
          fname = or_else pth (''screenshot-'' @ stamp @ ''.png'');
          screenshotsDir = path_join env (outputDir (logging config)) ''screenshots'';
          (e1, m2) = (if \<not> existsSync env screenshotsDir (world m1)
                      then primitive (mkdir env screenshotsDir)
                             (record_call (Mkdir screenshotsDir) m1)
                      else (None, m1))
      in case e1 of
           Some err \<Rightarrow> takeScreenshot_failed env pth stp err m2
         | None \<Rightarrow>
            (let screenshotPath = path_join env screenshotsDir fname;
                 m3 = logger_call env
                        (\<lambda>t. Logger_debug t ''Taking screenshot''
                               (Some (JObj [(''path'', JStr screenshotPath),
                                            (''step'', json_opt_nat stp),
                                            (''outputDir'', JStr (outputDir (logging config))),
                                            (''screenshotsDir'', JStr screenshotsDir)])) None) m2;
                 (e2, m4) = primitive (page_screenshot env page screenshotPath)
                              (record_call (PageScreenshot screenshotPath) m3)
             in case e2 of
                  Some err \<Rightarrow> takeScreenshot_failed env pth stp err m4
                | None \<Rightarrow>
                    (Success screenshotPath,
                     logger_screenshot_call env screenshotPath stp shot_success m4)))"

section \<open>Execution engine\<close>

text \<open>
  \<open>ExecutionResult\<close>. \<open>collectedErrors\<close> is never pushed to, so \<open>errorAnalysis\<close> is always
  \<open>undefined\<close>.
\<close>

record ExecutionResult =
  success :: bool
  stepsExecuted :: nat
  totalSteps :: nat
  executionTime :: int
  result_screenshots :: "string list"
  result_error :: "string option"
  result_logs :: "ExecutionLog list"
  errorAnalysis :: "(ClassifiedError list \<times> string) option"
  result_sessionId :: string
  result_logFilePath :: string

definition show_opt :: "string option \<Rightarrow> string" where
  "show_opt x = (case x of None \<Rightarrow> ''undefined'' | Some t \<Rightarrow> t)"

definition string_of_value :: "StepValue \<Rightarrow> string" where
  "string_of_value v = (case v of StrValue t \<Rightarrow> t | NumValue n \<Rightarrow> string_of_int n)"

definition value_truthy :: "StepValue option \<Rightarrow> bool" where
  "value_truthy v =
     (case v of None \<Rightarrow> False | Some (StrValue t) \<Rightarrow> t \<noteq> [] | Some (NumValue n) \<Rightarrow> n \<noteq> 0)"

definition getStepSummary :: "ActionStep \<Rightarrow> string" where
  "getStepSummary st =
     (if step_type st = ''navigate'' then ''Navigate to '' @ show_opt (url st)
      else if step_type st = ''click'' then ''Click '' @ show_opt (selector st)
      else if step_type st = ''type'' then
        ''Type '' @ [CHR 0x22] @ show_opt (map_option string_of_value (step_value st)) @
        [CHR 0x22] @ '' into '' @ show_opt (selector st)
      else if step_type st = ''wait'' then
        ''Wait '' @ show_opt (map_option string_of_int (timeout st)) @ ''ms''
      else if step_type st = ''screenshot'' then ''Take screenshot''
      else if step_type st = ''scroll'' then
        ''Scroll '' @ show_opt (selector st) @
        (if value_truthy (step_value st)
         then '' by '' @ string_of_value (the (step_value st)) @ ''px'' else [])
      else if step_type st = ''select'' then
        ''Select '' @ [CHR 0x22] @ show_opt (map_option string_of_value (step_value st)) @
        [CHR 0x22] @ '' from '' @ show_opt (selector st)
      else ''Execute '' @ step_type st)"

text \<open>\<open>logs.push({..., timestamp: new Date(), ...})\<close>.\<close>

definition push_log ::
  "'w env \<Rightarrow> nat \<Rightarrow> string \<Rightarrow> LogStatus \<Rightarrow> string \<Rightarrow> int option \<Rightarrow> 'w Run \<Rightarrow> 'w Run" where
  "push_log env n action status msg dur m =
     (tick m)\<lparr>var_logs := var_logs m @
        [\<lparr>log_step = n, log_action = action, log_status = status, log_message = msg,
          log_timestamp = date_now env m, log_duration = dur\<rparr>]\<rparr>"

text \<open>\<open>await logger.cleanup()\<close>.\<close>

definition logger_cleanup :: "'w env \<Rightarrow> 'w Run \<Rightarrow> 'w Run" where
  "logger_cleanup env m = logger_call env Logger_cleanup (record_call LoggerCleanup m)"

text \<open>
  The object handed to \<open>success(...)\<close> at a \<open>return\<close>. Its \<open>logs\<close> and \<open>screenshots\<close>
  properties are the local arrays themselves, not copies.
\<close>

definition make_result ::
  "bool \<Rightarrow> nat \<Rightarrow> AutomationScript \<Rightarrow> int \<Rightarrow> string option \<Rightarrow> 'w Run \<Rightarrow> ExecutionResult" where
  "make_result ok executed script time err m =
     \<lparr>success = ok, stepsExecuted = executed, totalSteps = length (steps script),
      executionTime = time, result_screenshots = var_screenshots m, result_error = err,
      result_logs = var_logs m, errorAnalysis = None,
      result_sessionId = summary_sessionId (getSessionSummary (logger m)),
      result_logFilePath = summary_logFilePath (getSessionSummary (logger m))\<rparr>"

text \<open>The operation handed to the retry executor for one step.\<close>

definition step_operation ::
  "'w env \<Rightarrow> handle \<Rightarrow> ActionStep \<Rightarrow> AutoConfig \<Rightarrow> nat \<Rightarrow> 'w Run
   \<Rightarrow> string option Outcome \<times> 'w Run" where
  "step_operation env page st config stepNumber m =
     collaborator (executeActionStep env page st config stepNumber)
       (record_call (ExecuteActionStep stepNumber) m)"

text \<open>
  The error screenshot of a failed step. (The \<open>catch\<close> around it is for a failing dynamic
  import of the controller module, which is taken to load.)
\<close>

definition error_screenshot :: "'w env \<Rightarrow> handle \<Rightarrow> AutoConfig \<Rightarrow> nat \<Rightarrow> 'w Run \<Rightarrow> 'w Run" where
  "error_screenshot env page config stepNumber m =
     (let errorScreenshotFilename =
            ''error-step-'' @ string_of_int (int stepNumber) @ ''-'' @
            string_of_int (date_now env m) @ ''.png'';
          (screenshotResult, m1) =
            takeScreenshot env page config (Some errorScreenshotFilename) (Some stepNumber)
              (tick m)
      in case screenshotResult of
           Success p \<Rightarrow> m1\<lparr>var_screenshots := var_screenshots m1 @ [p]\<rparr>
         | Failure e \<Rightarrow>
             logger_call env
               (\<lambda>t. Logger_error t ''Failed to capture error screenshot''
                      (Some (JObj [(''step'', JNum (int stepNumber)), (''error'', JStr e)]))
                      None) m1)"

datatype ('c, 'r) flow = Continue 'c | Return 'r

text \<open>The state in which the retry executor is started for step \<open>i + 1\<close>.\<close>

definition step_start :: "'w env \<Rightarrow> nat \<Rightarrow> ActionStep \<Rightarrow> 'w Run \<Rightarrow> 'w Run" where
  "step_start env i st m =
     logger_call env
       (\<lambda>t. Logger_info t (''Starting step '' @ string_of_int (int (Suc i)))
              (Some (JObj [(''stepNumber'', JNum (int (Suc i))), (''action'', JStr (step_type st)),
                           (''summary'', JStr (getStepSummary st))]))
              (Some (Suc i)))
       (tick m)"

text \<open>The retry-wrapped execution of step \<open>i + 1\<close> from the state \<open>m\<close> at the loop head.\<close>

definition step_attempts ::
  "'w env \<Rightarrow> AutoConfig \<Rightarrow> handle \<Rightarrow> nat \<Rightarrow> ActionStep \<Rightarrow> 'w Run
   \<Rightarrow> (string option, 'w Run) retry_run" where
  "step_attempts env config page i st m =
     executeWithSmartRetry (step_operation env page st config (Suc i)) config (Some st)
       (Some (Suc i)) (step_start env i st m)"

text \<open>The failure branch of the loop body, from the state after the retry executor.\<close>

definition step_failed ::
  "'w env \<Rightarrow> AutomationScript \<Rightarrow> AutoConfig \<Rightarrow> int \<Rightarrow> handle \<Rightarrow> nat \<Rightarrow> ActionStep \<Rightarrow> int
   \<Rightarrow> string \<Rightarrow> 'w Run \<Rightarrow> ExecutionResult Result \<times> 'w Run" where
  "step_failed env script config startTime page i st stepDuration err m4 =
     (let m5 = logger_call env
                 (\<lambda>t. Logger_step t (Suc i) (step_type st) (''Failed: '' @ err)
                        (Some stepDuration) False) m4;
          m6 = push_log env (Suc i) (step_type st) status_error (''Failed: '' @ err)
                 (Some stepDuration) m5;
          m7 = (if screenshotOnError (actions config)
                then error_screenshot env page config (Suc i) m6 else m6);
          time = date_now env m7 - startTime;
          m8 = logger_cleanup env (tick m7)
      in (Success (make_result False (var_stepsExecuted m8) script time (Some err) m8), m8))"

text \<open>One turn of the \<open>for\<close> loop, for the step at index \<open>i\<close>.\<close>

definition run_step ::
  "'w env \<Rightarrow> AutomationScript \<Rightarrow> AutoConfig \<Rightarrow> int \<Rightarrow> handle \<Rightarrow> nat \<Rightarrow> ActionStep \<Rightarrow> 'w Run
   \<Rightarrow> ('w Run, ExecutionResult Result \<times> 'w Run) flow" where
  "run_step env script config startTime page i st m =
     (let stepStartTime = date_now env m;
          run = step_attempts env config page i st m;
          m3 = (run_state run)\<lparr>retry_events := retry_events (run_state run) @ run_events run\<rparr>;
          stepDuration = date_now env m3 - stepStartTime;
          m4 = tick m3
      in case run_result run of
           Success d \<Rightarrow>
             (let m5 = m4\<lparr>var_stepsExecuted := Suc (var_stepsExecuted m4)\<rparr>;
                  m6 = (if present d \<and> step_type st = ''screenshot''
                        then m5\<lparr>var_screenshots := var_screenshots m5 @ [the d]\<rparr> else m5);
                  m7 = logger_call env
                         (\<lambda>t. Logger_step t (Suc i) (step_type st) (getStepSummary st)
                                (Some stepDuration) True) m6
              in Continue (push_log env (Suc i) (step_type st) status_success
                             (getStepSummary st) (Some stepDuration) m7))
         | Failure err \<Rightarrow>
             Return (step_failed env script config startTime page i st stepDuration err m4))"

text \<open>What follows the loop when every step has succeeded.\<close>

definition completion ::
  "'w env \<Rightarrow> AutomationScript \<Rightarrow> int \<Rightarrow> 'w Run \<Rightarrow> ExecutionResult Result \<times> 'w Run" where
  "completion env script startTime m =
     (let time = date_now env m - startTime;
          m1 = logger_call env
                 (\<lambda>t. Logger_info t ''Script execution completed successfully''
                        (Some (JObj [(''stepsExecuted'', JNum (int (var_stepsExecuted m))),
                                     (''totalSteps'', JNum (int (length (steps script)))),
                                     (''executionTime'', JNum time),
                                     (''screenshotCount'',
                                        JNum (int (length (var_screenshots m))))]))
                        None) (tick m);
          m2 = push_log env 0 ''completion'' status_success
                 (''Script completed successfully in '' @ string_of_int time @ ''ms'') None m1;
          m3 = logger_cleanup env m2
      in (Success (make_result True (var_stepsExecuted m3) script time None m3), m3))"

text \<open>The \<open>for\<close> loop from index \<open>i\<close>, over the steps that remain.\<close>

fun run_steps ::
  "'w env \<Rightarrow> AutomationScript \<Rightarrow> AutoConfig \<Rightarrow> int \<Rightarrow> handle \<Rightarrow> nat \<Rightarrow> ActionStep list \<Rightarrow> 'w Run
   \<Rightarrow> ExecutionResult Result \<times> 'w Run" where
  "run_steps env script config startTime page i [] m = completion env script startTime m"
| "run_steps env script config startTime page i (st # rest) m =
     (case run_step env script config startTime page i st m of
        Continue m' \<Rightarrow> run_steps env script config startTime page (Suc i) rest m'
      | Return r \<Rightarrow> r)"

definition error_json :: "ValidationError \<Rightarrow> json" where
  "error_json e =
     JObj [(''field'', JStr (ve_field e)), (''message'', JStr (ve_message e)),
           (''step'', json_opt_nat (ve_step e))]"

text \<open>The outermost \<open>catch\<close> block.\<close>

definition unexpected_error ::
  "'w env \<Rightarrow> AutomationScript \<Rightarrow> int \<Rightarrow> string \<Rightarrow> 'w Run \<Rightarrow> ExecutionResult Result \<times> 'w Run" where
  "unexpected_error env script startTime err m =
     (let time = date_now env m - startTime;
          m1 = logger_call env
                 (\<lambda>t. Logger_error t ''Script execution failed with unexpected error''
                        (Some (JObj [(''error'', JStr err), (''executionTime'', JNum time),
                                     (''stepsExecuted'', JNum 0)])) None) (tick m);
          m2 = logger_cleanup env m1
      in (Success (make_result False 0 script time (Some err) m2), m2))"

text \<open>
  Logging a validation that reported no errors: with warnings (recorded in \<open>logs\<close> too when
  \<open>logging.verbose\<close> is set) or without.
\<close>

definition validation_passed ::
  "'w env \<Rightarrow> AutoConfig \<Rightarrow> ValidationResult \<Rightarrow> 'w Run \<Rightarrow> 'w Run" where
  "validation_passed env config validationResult m1 =
     (if length (vr_warnings validationResult) > 0
      then
        (let warningMessage = formatValidationResults (validation_icons env) validationResult;
             m' = logger_call env
                    (\<lambda>t. Logger_validation t ''Script validation completed with warnings''
                           (Some []) (Some (vr_warnings validationResult))) m1
         in if verbose (logging config)
            then push_log env 0 ''validation'' status_warning warningMessage None m'
            else m')
      else logger_call env (\<lambda>t. Logger_validation t ''Script validation passed'' None None) m1)"

text \<open>
  Acquiring the browser session. A fault of \<open>initializeBrowser\<close> is the one thing in this
  model that reaches the outermost \<open>catch\<close>. Either the function returns here, with a
  value, the state and the value of \<open>browserController\<close> for the \<open>finally\<close> block, or the
  loop is entered with a controller and its page.
\<close>

definition acquire_browser ::
  "'w env \<Rightarrow> AutomationScript \<Rightarrow> AutoConfig \<Rightarrow> int \<Rightarrow> 'w Run
   \<Rightarrow> ('w Run \<times> BrowserController \<times> handle,
       ExecutionResult Result \<times> 'w Run \<times> BrowserController option) flow" where
  "acquire_browser env script config startTime m2 =
     (case collaborator (initializeBrowser env config) (record_call InitializeBrowser m2) of
        (Thrown err, m3) \<Rightarrow>
          (case unexpected_error env script startTime err m3 of
             (ret, m4) \<Rightarrow> Return (ret, m4, None))
      | (Returned (Failure err), m3) \<Rightarrow>
          Return
            (Failure (''Failed to initialize browser: '' @ err),
             logger_call env
               (\<lambda>t. Logger_error t ''Failed to initialize browser''
                      (Some (JObj [(''error'', JStr err)])) None) m3,
             None)
      | (Returned (Success browserController), m3) \<Rightarrow>
          (case bc_page browserController of
             None \<Rightarrow>
               Return
                 (Failure ''Browser page is not available'',
                  logger_call env
                    (\<lambda>t. Logger_error t ''Browser page is not available'' None None) m3,
                  Some browserController)
           | Some page \<Rightarrow>
               Continue
                 (push_log env 0 ''browser_init'' status_success
                    (''Browser initialized: '' @ browser_type (browser config)) None m3,
                  browserController, page)))"

text \<open>The \<open>try\<close> block up to the loop.\<close>

definition before_loop ::
  "'w env \<Rightarrow> AutomationScript \<Rightarrow> AutoConfig \<Rightarrow> int \<Rightarrow> 'w Run
   \<Rightarrow> ('w Run \<times> BrowserController \<times> handle,
       ExecutionResult Result \<times> 'w Run \<times> BrowserController option) flow" where
  "before_loop env script config startTime m0 =
     (let m1 = logger_call env
                 (\<lambda>t. Logger_info t ''Starting script execution''
                        (Some (JObj [(''scriptName'', JStr (script_name script)),
                                     (''description'', json_opt_str (script_description script)),
                                     (''totalSteps'', JNum (int (length (steps script))))]))
                        None) m0;
          validationResult = validateScript (isValidUrl env) script
      in if length (vr_errors validationResult) > 0
         then
           (let errorMessage = formatValidationResults (validation_icons env) validationResult;
                m2 = logger_call env
                       (\<lambda>t. Logger_validation t ''Script validation failed''
                              (Some (map error_json (vr_errors validationResult)))
                              (Some (vr_warnings validationResult))) m1
            in Return (Failure (''Script validation failed:'' @ [CHR 0x0A] @ errorMessage),
                       m2, None))
         else acquire_browser env script config startTime
                (validation_passed env config validationResult m1))"

text \<open>
  The body of the \<open>try\<close> block: the phases before the loop, then the loop. The third
  component is the value of \<open>browserController\<close> that the \<open>finally\<close> block will find.
\<close>

definition try_block ::
  "'w env \<Rightarrow> AutomationScript \<Rightarrow> AutoConfig \<Rightarrow> int \<Rightarrow> 'w Run
   \<Rightarrow> ExecutionResult Result \<times> 'w Run \<times> BrowserController option" where
  "try_block env script config startTime m0 =
     (case before_loop env script config startTime m0 of
        Return x \<Rightarrow> x
      | Continue (m, browserController, page) \<Rightarrow>
          (case run_steps env script config startTime page 0 (steps script) m of
             (ret, m') \<Rightarrow> (ret, m', Some browserController)))"

text \<open>
  The \<open>finally\<close> block. Its push onto \<open>logs\<close> is seen in the result already built by a
  \<open>return success(...)\<close>, whose \<open>logs\<close> property is that same array.
\<close>

definition finally_block ::
  "'w env \<Rightarrow> ExecutionResult Result \<times> 'w Run \<times> BrowserController option
   \<Rightarrow> ExecutionResult Result \<times> 'w Run" where
  "finally_block env x =
     (case x of
        (ret, m, None) \<Rightarrow> (ret, m)
      | (ret, m, Some browserController) \<Rightarrow>
          (let m1 = snd (closeBrowser env browserController m);
               m2 = logger_call env (\<lambda>t. Logger_browser t ''cleanup'' ''Browser closed'' []) m1;
               m3 = push_log env 0 ''browser_cleanup'' status_success ''Browser closed'' None m2
           in (case ret of
                 Success r \<Rightarrow> Success (r\<lparr>result_logs := var_logs m3\<rparr>)
               | Failure e \<Rightarrow> Failure e,
               m3)))"

text \<open>The state in which \<open>executeScript\<close> starts, in the world \<open>w\<close>.\<close>

definition initial_run :: "'w env \<Rightarrow> AutoConfig \<Rightarrow> 'w \<Rightarrow> 'w Run" where
  "initial_run env config w =
     \<lparr>world = w, logger = new_Logger (path_join env) (generateSessionId env) config,
      calls = [], reads = 0, retry_events = [], var_stepsExecuted = 0, var_logs = [],
      var_screenshots = []\<rparr>"

definition executeScript ::
  "'w env \<Rightarrow> AutomationScript \<Rightarrow> AutoConfig \<Rightarrow> 'w \<Rightarrow> ExecutionResult Result \<times> 'w Run" where
  "executeScript env script config w =
     (let m0 = initial_run env config w;
          startTime = date_now env m0
      in finally_block env (try_block env script config startTime (tick m0)))"

section \<open>Notions used to state the engine's properties\<close>

text \<open>
  The lifecycle calls are those that acquire or release the session's resources; the calls
  that only act inside a running session (performing a step, making the screenshot
  directory, capturing the page) are the others.
\<close>

definition lifecycle :: "call \<Rightarrow> bool" where
  "lifecycle c =
     (case c of ExecuteActionStep n \<Rightarrow> False | Mkdir d \<Rightarrow> False | PageScreenshot p \<Rightarrow> False
      | _ \<Rightarrow> True)"

definition lifecycle_calls :: "'w Run \<Rightarrow> call list" where
  "lifecycle_calls m = filter lifecycle (calls m)"

text \<open>
  What no collaborator can touch: the lifecycle calls made and the local variables
  \<open>stepsExecuted\<close> and \<open>screenshots\<close>.
\<close>

definition frame :: "'w Run \<Rightarrow> call list \<times> nat \<times> string list" where
  "frame m = (lifecycle_calls m, var_stepsExecuted m, var_screenshots m)"

text \<open>The logger holds the error entry of a failed error-screenshot capture.\<close>

definition capture_failure_logged :: "Logger \<Rightarrow> bool" where
  "capture_failure_logged lg =
     list_ex (\<lambda>e. level e = ERROR \<and> message e = ''Failed to capture error screenshot'')
             (logBuffer lg)"

text \<open>The close calls for the handles a controller holds, in the order of \<open>closeBrowser\<close>.\<close>

definition present_closes :: "BrowserController \<Rightarrow> call list" where
  "present_closes controller =
     (case bc_page controller of None \<Rightarrow> [] | Some h \<Rightarrow> [PageClose]) @
     (case bc_context controller of None \<Rightarrow> [] | Some h \<Rightarrow> [ContextClose]) @
     (case bc_browser controller of None \<Rightarrow> [] | Some h \<Rightarrow> [BrowserClose])"

text \<open>No close operation of the driver ever rejects.\<close>

definition closes_never_reject :: "'w env \<Rightarrow> bool" where
  "closes_never_reject env =
     (\<forall>h w. fst (page_close env h w) = None \<and> fst (context_close env h w) = None
           \<and> fst (browser_close env h w) = None)"

text \<open>The value of \<open>browserController\<close> when the \<open>finally\<close> block of a run is entered.\<close>

definition acquired_controller ::
  "'w env \<Rightarrow> AutomationScript \<Rightarrow> AutoConfig \<Rightarrow> 'w \<Rightarrow> BrowserController option" where
  "acquired_controller env script config w =
     snd (snd (try_block env script config (date_now env (initial_run env config w))
                 (tick (initial_run env config w))))"

text \<open>The state in which the \<open>finally\<close> block of a run is entered.\<close>

definition finally_entry :: "'w env \<Rightarrow> AutomationScript \<Rightarrow> AutoConfig \<Rightarrow> 'w \<Rightarrow> 'w Run" where
  "finally_entry env script config w =
     fst (snd (try_block env script config (date_now env (initial_run env config w))
                 (tick (initial_run env config w))))"

text \<open>
  Every capture succeeds: the screenshots directory exists or can be made, and the driver
  takes every screenshot. And its opposite: the driver rejects every screenshot.
\<close>

definition captures_never_fail :: "'w env \<Rightarrow> bool" where
  "captures_never_fail env =
     ((\<forall>d w. existsSync env d w \<or> fst (mkdir env d w) = None)
      \<and> (\<forall>h p w. fst (page_screenshot env h p w) = None))"

definition captures_always_fail :: "'w env \<Rightarrow> bool" where
  "captures_always_fail env = (\<forall>h p w. fst (page_screenshot env h p w) \<noteq> None)"

text \<open>
  The state at the loop head after the steps of a list have all succeeded, one after the
  other from index \<open>i\<close>; \<open>None\<close> when one of them fails.
\<close>

fun completed_prefix ::
  "'w env \<Rightarrow> AutomationScript \<Rightarrow> AutoConfig \<Rightarrow> int \<Rightarrow> handle \<Rightarrow> nat \<Rightarrow> ActionStep list \<Rightarrow> 'w Run
   \<Rightarrow> 'w Run option" where
  "completed_prefix env script config startTime page i [] m = Some m"
| "completed_prefix env script config startTime page i (st # rest) m =
     (case run_step env script config startTime page i st m of
        Continue m' \<Rightarrow> completed_prefix env script config startTime page (Suc i) rest m'
      | Return r \<Rightarrow> None)"

section \<open>Properties of the classifier and the retry executor\<close>

lemmas str_eval =
  toLowerCase_def toLowerChar_def upperChars_def lowerChars_def startsWith_def

lemmas num_eval = string_of_int_def digits_of_nat.simps digit_char_def

text \<open>A configuration like the one the test suites build, with a retry budget of 2.\<close>

definition example_config :: AutoConfig where
  "example_config =
     \<lparr>browser = \<lparr>browser_type = ''chromium'', headless = True,
                  viewport = \<lparr>width = 1920, height = 1080\<rparr>, slowMo = 0,
                  browser_timeout = 5000\<rparr>,
      actions = \<lparr>waitBetweenActions = 0, retryAttempts = 2, screenshotOnError = True\<rparr>,
      logging = \<lparr>logging_level = ''info'', outputDir = ''./logs'', saveScreenshots = True,
                  verbose = False\<rparr>\<rparr>"

text \<open>An operation that fails with the same declared message on every call, counting its calls.\<close>

definition always_failing :: "string \<Rightarrow> nat \<Rightarrow> unit Outcome \<times> nat" where
  "always_failing msg n = (Returned (Failure msg), Suc n)"

text \<open>What every branch of the classifier returns.\<close>

lemma classifyError_strategy:
  "strategy (classifyError m st sn)
     = Some (DEFAULT_RETRY_STRATEGIES (ce_type (classifyError m st sn)))"
  by (simp add: classifyError_def Let_def)

lemma classifyError_retryable:
  "isRetryable (classifyError m st sn) = (ce_type (classifyError m st sn) \<noteq> VALIDATION_ERROR)"
  by (simp add: classifyError_def Let_def)

lemma classifyError_validation:
  "ce_type (classifyError m st sn) = VALIDATION_ERROR \<longrightarrow>
     ce_message (classifyError m st sn) = ''Script validation failed'' \<and>
     (includes_str (toLowerCase m) ''validation'' \<or> includes_str (toLowerCase m) ''invalid'')"
  by (simp add: classifyError_def Let_def)

lemma strategy_of_classifyError:
  "strategy_of (classifyError m st sn)
     = DEFAULT_RETRY_STRATEGIES (ce_type (classifyError m st sn))"
  by (simp add: strategy_of_def classifyError_strategy)


lemma validation_not_retryable:
  "ce_type (classifyError m st sn) = VALIDATION_ERROR \<Longrightarrow>
     \<not> isRetryable (classifyError m st sn) \<and>
     ce_message (classifyError m st sn) = ''Script validation failed'' \<and>
     maxAttempts (strategy_of (classifyError m st sn)) = 1 \<and>
     (includes_str (toLowerCase m) ''validation'' \<or> includes_str (toLowerCase m) ''invalid'')"
  using classifyError_validation [of m st sn]
  by (simp add: classifyError_retryable strategy_of_classifyError)

text \<open>One turn of the loop that stops: the failure is not retryable or the ceiling is reached.\<close>

lemma retry_loop_stop:
  assumes "operation s = (Returned (Failure m), s')"
    and "\<not> isRetryable (classifyError m st sn) \<or>
         min (maxAttempts (strategy_of (classifyError m st sn))) (retryAttempts (actions config))
           \<le> attempt"
  shows "retry_loop operation config st sn attempt s =
     \<lparr>run_result = Failure (finalMessage (Some (classifyError m st sn)) attempt),
      run_state = s', run_events = [Invoked]\<rparr>"
  using assms by (subst retry_loop.simps) (auto simp add: Let_def)


lemma retry_loop_success:
  assumes "operation s = (Returned (Success d), s')"
  shows "retry_loop operation config st sn attempt s =
     \<lparr>run_result = Success d, run_state = s',
      run_events = Invoked #
        (if attempt > 1 \<and> verbose (logging config)
         then [ConsoleLog (SucceededOnAttempt sn attempt)] else [])\<rparr>"
  using assms by (subst retry_loop.simps) simp


text \<open>
  C8. For a strategy with base delay \<open>d\<close> and an attempt number \<open>n \<ge> 1\<close>,
  \<open>calculateRetryDelay\<close> returns \<open>d * 2 ^ (n - 1)\<close> under exponential backoff, \<open>d * n\<close>
  under linear backoff and \<open>d\<close> under fixed backoff. This is stated on the range on which
  the double arithmetic of the code is exact: \<open>d\<close>, \<open>n\<close> and the value returned are safe
  integers, and for exponential backoff \<open>n\<close> is at most 1024, so that the power of two is
  finite.
\<close>

theorem calculateRetryDelay_by_backoff:
  assumes "1 \<le> n" and "safe_integer d" and "safe_integer n"
  shows "(n \<le> 1024 \<and> safe_integer (d * 2 ^ nat (n - 1)) \<longrightarrow>
            calculateRetryDelay \<lparr>maxAttempts = m, delay = d, backoff = exponential\<rparr> n
              = of_int (d * 2 ^ nat (n - 1)))
       \<and> (safe_integer (d * n) \<longrightarrow>
            calculateRetryDelay \<lparr>maxAttempts = m, delay = d, backoff = linear\<rparr> n
              = of_int (d * n))
       \<and> calculateRetryDelay \<lparr>maxAttempts = m, delay = d, backoff = fixed\<rparr> n = of_int d"
  using assms by (simp add: calculateRetryDelay_def power_int_def)

theorem calculateRetryDelay_by_backoff_witness:
  "(1::int) \<le> 3 \<and> safe_integer 1000 \<and> safe_integer 3
   \<and> safe_integer (1000 * 2 ^ nat (3 - 1)) \<and> safe_integer (1000 * 3)
   \<and> calculateRetryDelay \<lparr>maxAttempts = 3, delay = 1000, backoff = exponential\<rparr> 3 = 4000
   \<and> calculateRetryDelay \<lparr>maxAttempts = 3, delay = 1000, backoff = linear\<rparr> 3 = 3000
   \<and> calculateRetryDelay \<lparr>maxAttempts = 3, delay = 1000, backoff = fixed\<rparr> 3 = 1000"
proof -
  have h: "(1::int) \<le> 3" "safe_integer 1000" "safe_integer 3"
    and r: "safe_integer (1000 * 2 ^ nat (3 - 1))" "safe_integer (1000 * 3)"
    by (simp_all add: safe_integer_def)
  show ?thesis
    using calculateRetryDelay_by_backoff [OF h, of 3] h r by simp
qed

text \<open>
  C3, as the code has it. The network group is tested before the timeout group, so a raw
  error string that contains "timeout" (in any letter case) is classified as
  \<open>TIMEOUT_ERROR\<close>, retryable, when it contains none of the network markers "net::",
  "network", "connection", "dns" and "refused". The element-not-found group comes after the
  timeout group and plays no part.
\<close>

theorem classifyError_timeout:
  assumes "includes_str (toLowerCase e) ''timeout''"
    and "\<not> includes_str (toLowerCase e) ''net::''"
    and "\<not> includes_str (toLowerCase e) ''network''"
    and "\<not> includes_str (toLowerCase e) ''connection''"
    and "\<not> includes_str (toLowerCase e) ''dns''"
    and "\<not> includes_str (toLowerCase e) ''refused''"
  shows "ce_type (classifyError e st sn) = TIMEOUT_ERROR \<and> isRetryable (classifyError e st sn)"
  using assms by (simp add: classifyError_def)

theorem classifyError_timeout_witness:
  "ce_type (classifyError ''Timeout waiting for element'' None None) = TIMEOUT_ERROR
   \<and> isRetryable (classifyError ''Timeout waiting for element'' None None)"
proof -
  have "includes_str (toLowerCase ''Timeout waiting for element'') ''timeout''"
    and "\<not> includes_str (toLowerCase ''Timeout waiting for element'') ''net::''"
    and "\<not> includes_str (toLowerCase ''Timeout waiting for element'') ''network''"
    and "\<not> includes_str (toLowerCase ''Timeout waiting for element'') ''connection''"
    and "\<not> includes_str (toLowerCase ''Timeout waiting for element'') ''dns''"
    and "\<not> includes_str (toLowerCase ''Timeout waiting for element'') ''refused''"
    by code_simp+
  then show ?thesis
    by (rule classifyError_timeout)
qed

text \<open>
  The claim as it was stated, with only the element-not-found markers excluded, fails: the
  message below contains "timeout" and no element-not-found marker, and is classified as a
  network error.
\<close>

theorem classifyError_timeout_counterexample:
  "includes_str (toLowerCase ''Connection timeout'') ''timeout''
   \<and> \<not> includes_str (toLowerCase ''Connection timeout'') ''no element''
   \<and> \<not> includes_str (toLowerCase ''Connection timeout'') ''not found''
   \<and> \<not> includes_str (toLowerCase ''Connection timeout'') ''cannot find''
   \<and> \<not> includes_str (toLowerCase ''Connection timeout'') ''element not found''
   \<and> ce_type (classifyError ''Connection timeout'' None None) = NETWORK_ERROR
   \<and> ce_type (classifyError ''Connection timeout'' None None) \<noteq> TIMEOUT_ERROR"
  by code_simp




text \<open>
  C4. When the operation's declared failure message classifies as a validation error, the
  operation is called exactly once and the result is a failure, whatever the global retry
  budget is: the classification is not retryable (and its strategy allows one attempt). The
  state the executor hands back is the one that single call left. Such a message contains
  "validation" or "invalid" (and no marker of a group tested earlier).
\<close>

theorem validation_error_single_attempt:
  assumes "operation s0 = (Returned (Failure m), s1)"
    and "ce_type (classifyError m st sn) = VALIDATION_ERROR"
  shows "invocations (executeWithSmartRetry operation config st sn s0) = 1
       \<and> run_state (executeWithSmartRetry operation config st sn s0) = s1
       \<and> run_events (executeWithSmartRetry operation config st sn s0) = [Invoked]
       \<and> run_result (executeWithSmartRetry operation config st sn s0)
           = Failure ''Script validation failed (validation_error, attempted 1 times)''
       \<and> \<not> isRetryable (classifyError m st sn)
       \<and> maxAttempts (strategy_of (classifyError m st sn)) = 1
       \<and> (includes_str (toLowerCase m) ''validation'' \<or> includes_str (toLowerCase m) ''invalid'')"
proof -
  note v = validation_not_retryable [OF assms(2)]
  have "retry_loop operation config st sn 1 s0 =
     \<lparr>run_result = Failure (finalMessage (Some (classifyError m st sn)) 1),
      run_state = s1, run_events = [Invoked]\<rparr>"
    by (rule retry_loop_stop [where operation = operation and s = s0, OF assms(1)])
       (simp add: v)
  then show ?thesis
    using v assms(2)
    by (simp add: executeWithSmartRetry_def invocations_def finalMessage_def num_eval)
qed

text \<open>The same configuration with a retry budget of 5.\<close>

definition generous_config :: AutoConfig where
  "generous_config = example_config\<lparr>actions := (actions example_config)\<lparr>retryAttempts := 5\<rparr>\<rparr>"

theorem validation_error_single_attempt_witness:
  "retryAttempts (actions generous_config) = 5
   \<and> invocations (executeWithSmartRetry (always_failing ''Invalid selector'') generous_config
                    None (Some 1) 0) = 1
   \<and> run_state (executeWithSmartRetry (always_failing ''Invalid selector'') generous_config
                    None (Some 1) 0) = Suc 0
   \<and> run_result (executeWithSmartRetry (always_failing ''Invalid selector'') generous_config
                    None (Some 1) 0)
       = Failure ''Script validation failed (validation_error, attempted 1 times)''"
proof -
  have t: "ce_type (classifyError ''Invalid selector'' None (Some 1)) = VALIDATION_ERROR"
    by code_simp
  have o: "always_failing ''Invalid selector'' 0 = (Returned (Failure ''Invalid selector''), Suc 0)"
    by (simp add: always_failing_def)
  show ?thesis
    using validation_error_single_attempt
            [where operation = "always_failing ''Invalid selector''" and ?s0.0 = 0
               and config = generous_config, OF o t]
    by (simp add: generous_config_def)
qed





section \<open>Properties of the session logger\<close>

text \<open>A session logger as the constructor builds it from the example configuration.\<close>

definition example_join :: "string \<Rightarrow> string \<Rightarrow> string" where
  "example_join a b = a @ ''/'' @ b"

definition example_logger :: Logger where
  "example_logger = new_Logger example_join ''2026-01-01T00-00-00-000Z-abc123'' example_config"

lemma Logger_log_dropped:
  "level_value lvl < level_value (min_level (logger_config lg)) \<Longrightarrow>
     Logger_log now lvl cat msg dat stp dur lg = lg"
  by (simp add: Logger_log_def)

lemma Logger_log_config [simp]:
  "logger_config (Logger_log now lvl cat msg dat stp dur lg) = logger_config lg"
  by (simp add: Logger_log_def Let_def writeToConsole_def writeToFile_def split: LogLevel.split)

lemma Logger_log_buffer:
  "logBuffer (Logger_log now lvl cat msg dat stp dur lg) =
     (if level_value lvl < level_value (min_level (logger_config lg)) then logBuffer lg
      else logBuffer lg @ [\<lparr>timestamp = now, level = lvl, category = cat, message = msg,
                            data = dat, entry_step = stp, duration = dur\<rparr>])"
  by (simp add: Logger_log_def Let_def writeToConsole_def writeToFile_def split: LogLevel.split)

text \<open>
  C7. A logger configured from an \<open>AutoConfig\<close> whose level is "info" writes nothing to
  the console or to the file for a debug-level emission, and for an info-, warn- or
  error-level emission it issues exactly one console line (on \<open>console.log\<close>,
  \<open>console.warn\<close>, \<open>console.error\<close> respectively) and exactly one file append, both
  holding the new entry.
\<close>

theorem info_level_sinks:
  assumes "logging_level (logging autoConfig) = ''info''"
    and "logger_config lg = createLoggerConfig autoConfig"
  shows "console_sink (Logger_log now DEBUG cat msg dat stp dur lg) = console_sink lg
       \<and> file_sink (Logger_log now DEBUG cat msg dat stp dur lg) = file_sink lg
       \<and> (\<forall>lvl meth. (lvl, meth) \<in> {(INFO, console_log), (WARN, console_warn),
                                      (ERROR, console_error)} \<longrightarrow>
            console_sink (Logger_log now lvl cat msg dat stp dur lg) =
              console_sink lg @
              [ConsoleLine meth \<lparr>timestamp = now, level = lvl, category = cat, message = msg,
                                 data = dat, entry_step = stp, duration = dur\<rparr>]
            \<and> file_sink (Logger_log now lvl cat msg dat stp dur lg) =
              file_sink lg @
              [\<lparr>file_path = logFilePath lg, file_format = structured_format,
                file_entry = \<lparr>timestamp = now, level = lvl, category = cat, message = msg,
                               data = dat, entry_step = stp, duration = dur\<rparr>\<rparr>])"
  using assms
  by (auto simp add: Logger_log_def createLoggerConfig_def levelMap_def Let_def
        writeToConsole_def writeToFile_def)

theorem info_level_sinks_witness:
  "console_sink (Logger_debug 1000 ''Taking screenshot'' None (Some 1) example_logger) = []
   \<and> file_sink (Logger_debug 1000 ''Taking screenshot'' None (Some 1) example_logger) = []
   \<and> console_sink (Logger_warn 1000 ''Element not found: #ok'' None None example_logger) =
       [ConsoleLine console_warn
          \<lparr>timestamp = 1000, level = WARN, category = ''warn'',
           message = ''Element not found: #ok'', data = None, entry_step = None,
           duration = None\<rparr>]
   \<and> file_sink (Logger_warn 1000 ''Element not found: #ok'' None None example_logger) =
       [\<lparr>file_path = ''./logs/execution-2026-01-01T00-00-00-000Z-abc123.log'',
         file_format = structured_format,
         file_entry =
           \<lparr>timestamp = 1000, level = WARN, category = ''warn'',
            message = ''Element not found: #ok'', data = None, entry_step = None,
            duration = None\<rparr>\<rparr>]"
proof -
  have a: "logging_level (logging example_config) = ''info''"
    by (simp add: example_config_def)
  have b: "logger_config example_logger = createLoggerConfig example_config"
    by (simp add: example_logger_def new_Logger_def)
  have c: "console_sink example_logger = [] \<and> file_sink example_logger = []
         \<and> logFilePath example_logger
             = ''./logs/execution-2026-01-01T00-00-00-000Z-abc123.log''"
    by (simp add: example_logger_def new_Logger_def createLoggerConfig_def example_config_def
        example_join_def)
  show ?thesis
    using info_level_sinks [OF a b, of 1000 "''debug''" "''Taking screenshot''" None "Some 1" None]
      info_level_sinks [OF a b, of 1000 "''warn''" "''Element not found: #ok''" None None None]
      c
    by (simp add: Logger_debug_def Logger_warn_def)
qed

text \<open>
  C9. An emission whose severity is below the logger's configured minimum leaves the logger
  as it was: nothing is appended to the in-memory buffer, so the session summary (total and
  per-level counts), the execution timeline and both exports are the same as before it.
\<close>

theorem below_minimum_not_buffered:
  assumes "level_value lvl < level_value (min_level (logger_config lg))"
  shows "Logger_log now lvl cat msg dat stp dur lg = lg
       \<and> logBuffer (Logger_log now lvl cat msg dat stp dur lg) = logBuffer lg
       \<and> totalLogs (getSessionSummary (Logger_log now lvl cat msg dat stp dur lg))
           = totalLogs (getSessionSummary lg)
       \<and> logsByLevel (getSessionSummary (Logger_log now lvl cat msg dat stp dur lg))
           = logsByLevel (getSessionSummary lg)
       \<and> getExecutionTimeline (Logger_log now lvl cat msg dat stp dur lg)
           = getExecutionTimeline lg
       \<and> exportLogs fmt (Logger_log now lvl cat msg dat stp dur lg) = exportLogs fmt lg"
  using assms by (simp add: Logger_log_def)

theorem below_minimum_not_buffered_witness:
  "level_value DEBUG < level_value (min_level (logger_config example_logger))
   \<and> Logger_debug 1000 ''Taking screenshot'' None (Some 1) example_logger = example_logger
   \<and> totalLogs (getSessionSummary
        (Logger_debug 1000 ''Taking screenshot'' None (Some 1) example_logger)) = 0"
proof -
  have a: "level_value DEBUG < level_value (min_level (logger_config example_logger))"
    by (simp add: example_logger_def new_Logger_def createLoggerConfig_def example_config_def
        levelMap_def)
  have z: "totalLogs (getSessionSummary example_logger) = 0"
    by (simp add: getSessionSummary_def example_logger_def new_Logger_def)
  show ?thesis
    using below_minimum_not_buffered
            [OF a, of 1000 "''debug''" "''Taking screenshot''" None "Some 1" None] a z
    by (simp add: Logger_debug_def)
qed

text \<open>
  Over a whole session: after any sequence of emissions, the buffer has grown by exactly the
  entries of the emissions at or above the minimum, in order.
\<close>

record emission =
  em_now :: int
  em_level :: LogLevel
  em_category :: string
  em_message :: string
  em_data :: "json option"
  em_step :: "nat option"
  em_duration :: "int option"

definition emit :: "Logger \<Rightarrow> emission \<Rightarrow> Logger" where
  "emit lg em =
     Logger_log (em_now em) (em_level em) (em_category em) (em_message em) (em_data em)
       (em_step em) (em_duration em) lg"

definition entry_of :: "emission \<Rightarrow> LogEntry" where
  "entry_of em =
     \<lparr>timestamp = em_now em, level = em_level em, category = em_category em,
      message = em_message em, data = em_data em, entry_step = em_step em,
      duration = em_duration em\<rparr>"

definition admitted :: "LoggerConfig \<Rightarrow> emission \<Rightarrow> bool" where
  "admitted cfg em = (\<not> level_value (em_level em) < level_value (min_level cfg))"

lemma buffer_after_emissions:
  "logBuffer (foldl emit lg ems)
     = logBuffer lg @ map entry_of (filter (admitted (logger_config lg)) ems)
   \<and> logger_config (foldl emit lg ems) = logger_config lg"
proof (induction ems arbitrary: lg)
  case Nil
  show ?case by simp
next
  case (Cons em ems)
  have cfg: "logger_config (emit lg em) = logger_config lg"
    by (simp add: emit_def)
  show ?case
    using Cons.IH [of "emit lg em"]
    by (simp add: cfg) (simp add: emit_def Logger_log_buffer admitted_def entry_of_def)
qed

lemma buffer_levels_after_emissions:
  assumes "logBuffer lg = []"
  shows "\<forall>e \<in> set (logBuffer (foldl emit lg ems)).
           level_value (min_level (logger_config lg)) \<le> level_value (level e)"
  using assms by (auto simp add: buffer_after_emissions admitted_def entry_of_def)

section \<open>Properties of the execution engine\<close>

subsection \<open>What the collaborators leave alone\<close>

text \<open>
  No clock reading, logger call, log push or driver primitive changes the lifecycle calls made
  so far, \<open>stepsExecuted\<close> or \<open>screenshots\<close>.
\<close>

lemma lifecycle_simps [simp]:
  "\<not> lifecycle (ExecuteActionStep n)" "\<not> lifecycle (Mkdir d)" "\<not> lifecycle (PageScreenshot p)"
  "lifecycle InitializeBrowser" "lifecycle CloseBrowser" "lifecycle PageClose"
  "lifecycle ContextClose" "lifecycle BrowserClose" "lifecycle LoggerCleanup"
  by (simp_all add: lifecycle_def)

lemma frame_tick [simp]: "frame (tick m) = frame m"
  by (simp add: frame_def lifecycle_calls_def tick_def)

lemma frame_logger_call [simp]: "frame (logger_call env f m) = frame m"
  by (simp add: frame_def lifecycle_calls_def logger_call_def tick_def)

lemma frame_push_log [simp]: "frame (push_log env n a s msg d m) = frame m"
  by (simp add: frame_def lifecycle_calls_def push_log_def tick_def)

lemma proj_tick [simp]:
  "lifecycle_calls (tick m) = lifecycle_calls m"
  "var_stepsExecuted (tick m) = var_stepsExecuted m"
  "var_screenshots (tick m) = var_screenshots m"
  by (simp_all add: lifecycle_calls_def tick_def)

lemma proj_logger_call [simp]:
  "lifecycle_calls (logger_call env f m) = lifecycle_calls m"
  "var_stepsExecuted (logger_call env f m) = var_stepsExecuted m"
  "var_screenshots (logger_call env f m) = var_screenshots m"
  by (simp_all add: lifecycle_calls_def logger_call_def tick_def)

lemma proj_push_log [simp]:
  "lifecycle_calls (push_log env n a s msg d m) = lifecycle_calls m"
  "var_stepsExecuted (push_log env n a s msg d m) = var_stepsExecuted m"
  "var_screenshots (push_log env n a s msg d m) = var_screenshots m"
  by (simp_all add: lifecycle_calls_def push_log_def tick_def)

lemma proj_updates [simp]:
  "lifecycle_calls (m\<lparr>retry_events := ev\<rparr>) = lifecycle_calls m"
  "lifecycle_calls (m\<lparr>var_stepsExecuted := k\<rparr>) = lifecycle_calls m"
  "lifecycle_calls (m\<lparr>var_screenshots := ss\<rparr>) = lifecycle_calls m"
  "lifecycle_calls (m\<lparr>var_logs := ls\<rparr>) = lifecycle_calls m"
  by (simp_all add: lifecycle_calls_def)

lemma frame_primitive [simp]: "frame (snd (primitive f m)) = frame m"
  by (simp add: frame_def lifecycle_calls_def primitive_def split: prod.splits)

lemma frame_collaborator [simp]: "frame (snd (collaborator f m)) = frame m"
  by (simp add: frame_def lifecycle_calls_def collaborator_def split: prod.splits)

lemma frame_record_call:
  "frame (record_call c m) =
     (lifecycle_calls m @ (if lifecycle c then [c] else []), var_stepsExecuted m,
      var_screenshots m)"
  by (simp add: frame_def lifecycle_calls_def record_call_def)

lemma frame_record_call_other [simp]:
  "\<not> lifecycle c \<Longrightarrow> frame (record_call c m) = frame m"
  by (simp add: frame_def lifecycle_calls_def record_call_def)

lemma frame_logger_cleanup:
  "frame (logger_cleanup env m) =
     (lifecycle_calls m @ [LoggerCleanup], var_stepsExecuted m, var_screenshots m)"
  by (simp add: logger_cleanup_def frame_record_call)

lemma frame_logger_screenshot_call [simp]:
  "frame (logger_screenshot_call env p stp typ m) = frame m"
  by (simp add: frame_def lifecycle_calls_def logger_screenshot_call_def tick_def)

lemma frame_takeScreenshot_failed [simp]:
  "frame (snd (takeScreenshot_failed env pth stp err m)) = frame m"
  by (simp add: takeScreenshot_failed_def Let_def)

lemma frame_takeScreenshot [simp]:
  "frame (snd (takeScreenshot env page config pth stp m)) = frame m"
  by (simp add: takeScreenshot_def Let_def split_beta split: option.splits)

lemma retry_loop_preserves:
  "(\<forall>s. f (snd (operation s)) = f s) \<longrightarrow>
     f (run_state (retry_loop operation config st sn attempt s)) = f s"
proof (induction operation config st sn attempt s rule: retry_loop.induct)
  case (1 operation config st stepNumber attempt s)
  show ?case
  proof
    assume inv: "\<forall>s. f (snd (operation s)) = f s"
    obtain out s' where o: "operation s = (out, s')" by (cases "operation s")
    have s': "f s' = f s" using inv o by (metis snd_conv)
    show "f (run_state (retry_loop operation config st stepNumber attempt s)) = f s"
    proof (cases out)
      case (Thrown e)
      then show ?thesis using o s' by (subst retry_loop.simps) simp
    next
      case (Returned r)
      show ?thesis
      proof (cases r)
        case (Success d)
        then show ?thesis using o s' Returned by (subst retry_loop.simps) simp
      next
        case (Failure err)
        show ?thesis
        proof (cases "\<not> isRetryable (classifyError err st stepNumber) \<or>
             min (maxAttempts (strategy_of (classifyError err st stepNumber)))
                 (retryAttempts (actions config)) \<le> attempt")
          case True
          then show ?thesis using o s' Returned Failure
            by (subst retry_loop.simps) (auto simp add: Let_def)
        next
          case False
          have "f (run_state (retry_loop operation config st stepNumber (attempt + 1) s')) = f s'"
            using "1.IH" [OF o [symmetric] Returned Failure refl refl refl False refl] inv
            by simp
          then show ?thesis using o s' Returned Failure False
            by (subst retry_loop.simps) (auto simp add: Let_def)
        qed
      qed
    qed
  qed
qed

lemma frame_step_operation [simp]:
  "frame (snd (step_operation env page st config n m)) = frame m"
  by (simp add: step_operation_def)

lemma frame_step_attempts [simp]:
  "frame (run_state (step_attempts env config page i st m)) = frame m"
proof -
  have "frame (run_state (step_attempts env config page i st m)) = frame (step_start env i st m)"
    unfolding step_attempts_def executeWithSmartRetry_def
    using retry_loop_preserves [of frame "step_operation env page st config (Suc i)"]
    by simp
  then show ?thesis
    by (simp add: step_start_def)
qed

text \<open>An error-level entry is never below the minimum.\<close>

lemma Logger_error_buffer:
  "logBuffer (Logger_error t msg d s lg) =
     logBuffer lg @ [\<lparr>timestamp = t, level = ERROR, category = ''error'', message = msg,
                       data = d, entry_step = s, duration = None\<rparr>]"
  by (cases "min_level (logger_config lg)")
     (simp_all add: Logger_error_def Logger_log_def Let_def writeToConsole_def writeToFile_def)

lemma Logger_log_buffer_mono:
  "set (logBuffer lg) \<subseteq> set (logBuffer (Logger_log now lvl cat msg dat stp dur lg))"
  by (auto simp add: Logger_log_def Let_def writeToConsole_def writeToFile_def
      split: LogLevel.split)

lemma Logger_cleanup_buffer [simp]:
  "logBuffer (Logger_cleanup now lg) = logBuffer lg"
  by (simp add: Logger_cleanup_def writeToFile_def)

lemma takeScreenshot_success_path:
  assumes "fst (takeScreenshot env page config (Some f) stp m) = Success p" and "f \<noteq> []"
  shows "p = path_join env (path_join env (outputDir (logging config)) ''screenshots'') f"
  using assms
  by (simp add: takeScreenshot_def takeScreenshot_failed_def Let_def split_beta or_else_def
      split: option.splits)

lemma calls_takeScreenshot_failed [simp]:
  "calls (snd (takeScreenshot_failed env pth stp err m)) = calls m"
  by (simp add: takeScreenshot_failed_def Let_def logger_call_def tick_def)

lemma takeScreenshot_success_call:
  assumes "fst (takeScreenshot env page config pth stp m) = Success p"
  shows "PageScreenshot p \<in> set (calls (snd (takeScreenshot env page config pth stp m)))"
  using assms
  by (simp add: takeScreenshot_def takeScreenshot_failed_def Let_def split_beta
      logger_screenshot_call_def logger_call_def tick_def primitive_def record_call_def
      split: option.splits if_splits)

lemma fst_primitive: "fst (primitive f m) = fst (f (world m))"
  by (simp add: primitive_def split_beta)

lemma fst_takeScreenshot_failed:
  "fst (takeScreenshot_failed env pth stp err m) = Failure (''Failed to take screenshot: '' @ err)"
  by (simp add: takeScreenshot_failed_def Let_def)

lemma takeScreenshot_always_fails:
  assumes "captures_always_fail env"
  shows "\<exists>e. fst (takeScreenshot env page config pth stp m) = Failure e"
proof -
  have ps: "fst (page_screenshot env h p w) \<noteq> None" for h p w
    using assms by (simp add: captures_always_fail_def)
  show ?thesis
    by (simp add: takeScreenshot_def Let_def split_beta fst_primitive fst_takeScreenshot_failed
        ps split: option.splits)
qed

lemma takeScreenshot_never_fails:
  assumes "captures_never_fail env"
  shows "\<exists>p. fst (takeScreenshot env page config pth stp m) = Success p"
proof -
  have ps: "fst (page_screenshot env h p w) = None" for h p w
    using assms by (simp add: captures_never_fail_def)
  have mk: "\<not> existsSync env d w \<Longrightarrow> fst (mkdir env d w) = None" for d w
    using assms by (auto simp add: captures_never_fail_def)
  show ?thesis
  proof (cases "existsSync env (path_join env (outputDir (logging config)) ''screenshots'')
                  (world m)")
    case True
    then show ?thesis
      by (simp add: takeScreenshot_def Let_def split_beta fst_primitive ps tick_def)
  next
    case False
    then show ?thesis
      using mk [OF False]
      by (simp add: takeScreenshot_def Let_def split_beta fst_primitive ps tick_def
          record_call_def)
  qed
qed

text \<open>The two outcomes of the error screenshot.\<close>

lemma error_screenshot_Failure:
  assumes "fst (takeScreenshot env page config
                  (Some (''error-step-'' @ string_of_int (int n) @ ''-'' @
                         string_of_int (date_now env m) @ ''.png''))
                  (Some n) (tick m)) = Failure e"
  shows "frame (error_screenshot env page config n m) = frame m
       \<and> capture_failure_logged (logger (error_screenshot env page config n m))"
proof -
  let ?f = "''error-step-'' @ string_of_int (int n) @ ''-'' @ string_of_int (date_now env m) @ ''.png''"
  let ?t = "takeScreenshot env page config (Some ?f) (Some n) (tick m)"
  have fr: "frame (snd ?t) = frame m" by simp
  have "frame (error_screenshot env page config n m) = frame m"
    using assms fr by (simp add: error_screenshot_def Let_def split_beta)
  moreover have "capture_failure_logged (logger (error_screenshot env page config n m))"
    using assms
    by (simp add: error_screenshot_def Let_def split_beta capture_failure_logged_def
        logger_call_def tick_def Logger_error_buffer list_ex_iff)
  ultimately show ?thesis by blast
qed

lemma error_screenshot_Success:
  assumes "fst (takeScreenshot env page config
                  (Some (''error-step-'' @ string_of_int (int n) @ ''-'' @
                         string_of_int (date_now env m) @ ''.png''))
                  (Some n) (tick m)) = Success p"
  shows "\<exists>T. frame (error_screenshot env page config n m) =
        (lifecycle_calls m, var_stepsExecuted m,
         var_screenshots m @
           [path_join env (path_join env (outputDir (logging config)) ''screenshots'')
              (''error-step-'' @ string_of_int (int n) @ ''-'' @ string_of_int T @ ''.png'')])
       \<and> PageScreenshot
            (path_join env (path_join env (outputDir (logging config)) ''screenshots'')
               (''error-step-'' @ string_of_int (int n) @ ''-'' @ string_of_int T @ ''.png''))
           \<in> set (calls (error_screenshot env page config n m))"
proof -
  let ?f = "''error-step-'' @ string_of_int (int n) @ ''-'' @ string_of_int (date_now env m) @ ''.png''"
  let ?t = "takeScreenshot env page config (Some ?f) (Some n) (tick m)"
  have fr: "frame (snd ?t) = frame m" by simp
  have p: "p = path_join env (path_join env (outputDir (logging config)) ''screenshots'') ?f"
    by (rule takeScreenshot_success_path [OF assms]) simp
  have "frame (error_screenshot env page config n m) =
          (lifecycle_calls m, var_stepsExecuted m, var_screenshots m @ [p])"
    using assms fr
    by (simp add: error_screenshot_def Let_def split_beta frame_def lifecycle_calls_def)
  moreover have "PageScreenshot p \<in> set (calls (error_screenshot env page config n m))"
    using takeScreenshot_success_call [OF assms] assms
    by (simp add: error_screenshot_def Let_def split_beta)
  ultimately show ?thesis unfolding p by blast
qed

lemma error_screenshot_cases:
  "frame (error_screenshot env page config n m) = frame m
     \<and> capture_failure_logged (logger (error_screenshot env page config n m))
   \<or> (\<exists>T. frame (error_screenshot env page config n m) =
        (lifecycle_calls m, var_stepsExecuted m,
         var_screenshots m @
           [path_join env (path_join env (outputDir (logging config)) ''screenshots'')
              (''error-step-'' @ string_of_int (int n) @ ''-'' @ string_of_int T @ ''.png'')])
       \<and> PageScreenshot
            (path_join env (path_join env (outputDir (logging config)) ''screenshots'')
               (''error-step-'' @ string_of_int (int n) @ ''-'' @ string_of_int T @ ''.png''))
           \<in> set (calls (error_screenshot env page config n m)))"
proof (cases "fst (takeScreenshot env page config
                  (Some (''error-step-'' @ string_of_int (int n) @ ''-'' @
                         string_of_int (date_now env m) @ ''.png''))
                  (Some n) (tick m))")
  case (Success p)
  from error_screenshot_Success [OF Success] show ?thesis by (rule disjI2)
next
  case (Failure e)
  from error_screenshot_Failure [OF Failure] show ?thesis by (rule disjI1)
qed

lemma error_screenshot_when_fail:
  assumes "captures_always_fail env"
  shows "frame (error_screenshot env page config n m) = frame m
       \<and> capture_failure_logged (logger (error_screenshot env page config n m))"
proof -
  from takeScreenshot_always_fails [OF assms] obtain e
    where "fst (takeScreenshot env page config
                  (Some (''error-step-'' @ string_of_int (int n) @ ''-'' @
                         string_of_int (date_now env m) @ ''.png''))
                  (Some n) (tick m)) = Failure e"
    by blast
  then show ?thesis by (rule error_screenshot_Failure)
qed

lemma error_screenshot_when_ok:
  assumes "captures_never_fail env"
  shows "\<exists>T. frame (error_screenshot env page config n m) =
        (lifecycle_calls m, var_stepsExecuted m,
         var_screenshots m @
           [path_join env (path_join env (outputDir (logging config)) ''screenshots'')
              (''error-step-'' @ string_of_int (int n) @ ''-'' @ string_of_int T @ ''.png'')])
       \<and> PageScreenshot
            (path_join env (path_join env (outputDir (logging config)) ''screenshots'')
               (''error-step-'' @ string_of_int (int n) @ ''-'' @ string_of_int T @ ''.png''))
           \<in> set (calls (error_screenshot env page config n m))"
proof -
  from takeScreenshot_never_fails [OF assms] obtain p
    where "fst (takeScreenshot env page config
                  (Some (''error-step-'' @ string_of_int (int n) @ ''-'' @
                         string_of_int (date_now env m) @ ''.png''))
                  (Some n) (tick m)) = Success p"
    by blast
  then show ?thesis by (rule error_screenshot_Success)
qed

subsection \<open>One step\<close>

lemma logger_cleanup_logged:
  "capture_failure_logged (logger m) \<Longrightarrow> capture_failure_logged (logger (logger_cleanup env m))"
  by (simp add: capture_failure_logged_def logger_cleanup_def logger_call_def tick_def
      record_call_def)

text \<open>The failure branch: what it returns, and what it leaves behind.\<close>

lemma step_failed_result:
  assumes "step_failed env script config startTime page i st dur err m4 = (ret, m')"
  shows "\<exists>r. ret = Success r \<and> \<not> success r \<and> stepsExecuted r = var_stepsExecuted m4
            \<and> totalSteps r = length (steps script) \<and> result_error r = Some err
            \<and> result_screenshots r = var_screenshots m'"
    and "lifecycle_calls m' = lifecycle_calls m4 @ [LoggerCleanup]"
    and "\<not> screenshotOnError (actions config) \<Longrightarrow> var_screenshots m' = var_screenshots m4"
    and "screenshotOnError (actions config) \<Longrightarrow>
           (var_screenshots m' = var_screenshots m4 \<and> capture_failure_logged (logger m'))
         \<or> (\<exists>T. var_screenshots m' = var_screenshots m4 @
               [path_join env (path_join env (outputDir (logging config)) ''screenshots'')
                  (''error-step-'' @ string_of_int (int (Suc i)) @ ''-'' @ string_of_int T @
                   ''.png'')]
             \<and> PageScreenshot
                  (path_join env (path_join env (outputDir (logging config)) ''screenshots'')
                     (''error-step-'' @ string_of_int (int (Suc i)) @ ''-'' @ string_of_int T @
                      ''.png''))
                 \<in> set (calls m'))"
    and "screenshotOnError (actions config) \<Longrightarrow> captures_always_fail env \<Longrightarrow>
           var_screenshots m' = var_screenshots m4 \<and> capture_failure_logged (logger m')"
    and "screenshotOnError (actions config) \<Longrightarrow> captures_never_fail env \<Longrightarrow>
           \<exists>T. var_screenshots m' = var_screenshots m4 @
               [path_join env (path_join env (outputDir (logging config)) ''screenshots'')
                  (''error-step-'' @ string_of_int (int (Suc i)) @ ''-'' @ string_of_int T @
                   ''.png'')]
             \<and> PageScreenshot
                  (path_join env (path_join env (outputDir (logging config)) ''screenshots'')
                     (''error-step-'' @ string_of_int (int (Suc i)) @ ''-'' @ string_of_int T @
                      ''.png''))
                 \<in> set (calls m')"
proof -
  let ?m6 = "push_log env (Suc i) (step_type st) status_error (''Failed: '' @ err) (Some dur)
               (logger_call env
                  (\<lambda>t. Logger_step t (Suc i) (step_type st) (''Failed: '' @ err) (Some dur) False)
                  m4)"
  let ?m7 = "if screenshotOnError (actions config)
             then error_screenshot env page config (Suc i) ?m6 else ?m6"
  let ?L = "logger_cleanup env (tick ?m7)"
  have "(ret, m') =
          (Success (make_result False (var_stepsExecuted ?L) script
                      (date_now env ?m7 - startTime) (Some err) ?L), ?L)"
    using assms unfolding step_failed_def Let_def by (rule sym)
  then have m': "m' = ?L"
    and r0: "ret = Success (make_result False (var_stepsExecuted ?L) script
                       (date_now env ?m7 - startTime) (Some err) ?L)"
    by blast+
  have ret: "ret = Success (make_result False (var_stepsExecuted m') script
                       (date_now env ?m7 - startTime) (Some err) m')"
    by (simp only: r0 m')
  have f6: "frame ?m6 = frame m4" by simp
  have fm': "frame m' = (lifecycle_calls ?m7 @ [LoggerCleanup], var_stepsExecuted ?m7,
                         var_screenshots ?m7)"
    by (simp add: m' frame_logger_cleanup)
  have f7: "lifecycle_calls ?m7 = lifecycle_calls m4 \<and> var_stepsExecuted ?m7 = var_stepsExecuted m4"
    using error_screenshot_cases [of env page config "Suc i" ?m6] f6
    by (auto simp add: frame_def)
  show "\<exists>r. ret = Success r \<and> \<not> success r \<and> stepsExecuted r = var_stepsExecuted m4
            \<and> totalSteps r = length (steps script) \<and> result_error r = Some err
            \<and> result_screenshots r = var_screenshots m'"
    using fm' f7 by (simp add: ret make_result_def frame_def)
  show "lifecycle_calls m' = lifecycle_calls m4 @ [LoggerCleanup]"
    using fm' f7 by (simp add: frame_def)
  show "var_screenshots m' = var_screenshots m4" if "\<not> screenshotOnError (actions config)"
    using fm' f6 that by (simp add: frame_def)
  have A: "var_screenshots m' = var_screenshots m4 \<and> capture_failure_logged (logger m')"
    if on: "screenshotOnError (actions config)"
      and a: "frame (error_screenshot env page config (Suc i) ?m6) = frame ?m6
              \<and> capture_failure_logged (logger (error_screenshot env page config (Suc i) ?m6))"
  proof -
    have m7: "?m7 = error_screenshot env page config (Suc i) ?m6" using on by simp
    from a have "capture_failure_logged (logger m')"
      unfolding m' m7
      by (simp add: capture_failure_logged_def logger_cleanup_def logger_call_def tick_def
          record_call_def)
    moreover have "var_screenshots m' = var_screenshots m4"
      using a fm' f6 unfolding m7 by (simp add: frame_def)
    ultimately show ?thesis by blast
  qed
  have B: "\<exists>T. var_screenshots m' = var_screenshots m4 @
               [path_join env (path_join env (outputDir (logging config)) ''screenshots'')
                  (''error-step-'' @ string_of_int (int (Suc i)) @ ''-'' @ string_of_int T @
                   ''.png'')]
             \<and> PageScreenshot
                  (path_join env (path_join env (outputDir (logging config)) ''screenshots'')
                     (''error-step-'' @ string_of_int (int (Suc i)) @ ''-'' @ string_of_int T @
                      ''.png''))
                 \<in> set (calls m')"
    if on: "screenshotOnError (actions config)"
      and b: "\<exists>T. frame (error_screenshot env page config (Suc i) ?m6) =
        (lifecycle_calls ?m6, var_stepsExecuted ?m6,
         var_screenshots ?m6 @
           [path_join env (path_join env (outputDir (logging config)) ''screenshots'')
              (''error-step-'' @ string_of_int (int (Suc i)) @ ''-'' @ string_of_int T @ ''.png'')])
       \<and> PageScreenshot
            (path_join env (path_join env (outputDir (logging config)) ''screenshots'')
               (''error-step-'' @ string_of_int (int (Suc i)) @ ''-'' @ string_of_int T @ ''.png''))
           \<in> set (calls (error_screenshot env page config (Suc i) ?m6))"
  proof -
    have m7: "?m7 = error_screenshot env page config (Suc i) ?m6" using on by simp
    from b obtain T where fT: "frame (error_screenshot env page config (Suc i) ?m6) =
        (lifecycle_calls ?m6, var_stepsExecuted ?m6,
         var_screenshots ?m6 @
           [path_join env (path_join env (outputDir (logging config)) ''screenshots'')
              (''error-step-'' @ string_of_int (int (Suc i)) @ ''-'' @ string_of_int T @ ''.png'')])"
      and cT: "PageScreenshot
            (path_join env (path_join env (outputDir (logging config)) ''screenshots'')
               (''error-step-'' @ string_of_int (int (Suc i)) @ ''-'' @ string_of_int T @ ''.png''))
           \<in> set (calls (error_screenshot env page config (Suc i) ?m6))"
      by blast
    from fT have "var_screenshots m' = var_screenshots m4 @
           [path_join env (path_join env (outputDir (logging config)) ''screenshots'')
              (''error-step-'' @ string_of_int (int (Suc i)) @ ''-'' @ string_of_int T @ ''.png'')]"
      using fm' f6 unfolding m7 by (simp add: frame_def)
    moreover from cT have "PageScreenshot
            (path_join env (path_join env (outputDir (logging config)) ''screenshots'')
               (''error-step-'' @ string_of_int (int (Suc i)) @ ''-'' @ string_of_int T @ ''.png''))
           \<in> set (calls m')"
      unfolding m' m7
      by (simp add: logger_cleanup_def logger_call_def tick_def record_call_def)
    ultimately show ?thesis by blast
  qed
  show "(var_screenshots m' = var_screenshots m4 \<and> capture_failure_logged (logger m'))
         \<or> (\<exists>T. var_screenshots m' = var_screenshots m4 @
               [path_join env (path_join env (outputDir (logging config)) ''screenshots'')
                  (''error-step-'' @ string_of_int (int (Suc i)) @ ''-'' @ string_of_int T @
                   ''.png'')]
             \<and> PageScreenshot
                  (path_join env (path_join env (outputDir (logging config)) ''screenshots'')
                     (''error-step-'' @ string_of_int (int (Suc i)) @ ''-'' @ string_of_int T @
                      ''.png''))
                 \<in> set (calls m'))"
    if on: "screenshotOnError (actions config)"
    using error_screenshot_cases [of env page config "Suc i" ?m6] A [OF on] B [OF on] by blast
  show "var_screenshots m' = var_screenshots m4 \<and> capture_failure_logged (logger m')"
    if on: "screenshotOnError (actions config)" and cf: "captures_always_fail env"
    by (rule A [OF on error_screenshot_when_fail [OF cf]])
  show "\<exists>T. var_screenshots m' = var_screenshots m4 @
               [path_join env (path_join env (outputDir (logging config)) ''screenshots'')
                  (''error-step-'' @ string_of_int (int (Suc i)) @ ''-'' @ string_of_int T @
                   ''.png'')]
             \<and> PageScreenshot
                  (path_join env (path_join env (outputDir (logging config)) ''screenshots'')
                     (''error-step-'' @ string_of_int (int (Suc i)) @ ''-'' @ string_of_int T @
                      ''.png''))
                 \<in> set (calls m')"
    if on: "screenshotOnError (actions config)" and cn: "captures_never_fail env"
    by (rule B [OF on error_screenshot_when_ok [OF cn]])
qed

lemma run_step_Continue:
  assumes "run_step env script config startTime page i st m = Continue m'"
  shows "lifecycle_calls m' = lifecycle_calls m \<and> var_stepsExecuted m' = Suc (var_stepsExecuted m)"
proof -
  have fr: "frame (run_state (step_attempts env config page i st m)) = frame m" by simp
  let ?run = "step_attempts env config page i st m"
  let ?m3 = "(run_state ?run)\<lparr>retry_events := retry_events (run_state ?run) @ run_events ?run\<rparr>"
  have f3: "lifecycle_calls (tick ?m3) = lifecycle_calls m
          \<and> var_stepsExecuted (tick ?m3) = var_stepsExecuted m"
    using fr by (simp add: frame_def)
  show ?thesis
    using assms f3
    by (auto simp add: run_step_def Let_def split: Result.splits if_splits)
qed

lemma run_step_Return:
  assumes "run_step env script config startTime page i st m = Return x"
  shows "\<exists>err dur m4. run_result (step_attempts env config page i st m) = Failure err
           \<and> x = step_failed env script config startTime page i st dur err m4
           \<and> frame m4 = frame m"
proof -
  have fr: "frame (run_state (step_attempts env config page i st m)) = frame m" by simp
  let ?run = "step_attempts env config page i st m"
  let ?m3 = "(run_state ?run)\<lparr>retry_events := retry_events (run_state ?run) @ run_events ?run\<rparr>"
  have f3: "frame (tick ?m3) = frame m"
    using fr by (simp add: frame_def)
  from assms obtain err where "run_result ?run = Failure err"
    and "x = step_failed env script config startTime page i st
               (date_now env ?m3 - date_now env m) err (tick ?m3)"
    by (auto simp add: run_step_def Let_def split: Result.splits)
  then show ?thesis using f3 by blast
qed

subsection \<open>The loop and the phases before it\<close>

text \<open>
  The loop hands every step that succeeds on to the next, counting it; the first step that
  fails ends the run through the failure branch.
\<close>

lemma proj_record_call [simp]:
  "lifecycle_calls (record_call c m) = lifecycle_calls m @ (if lifecycle c then [c] else [])"
  "var_stepsExecuted (record_call c m) = var_stepsExecuted m"
  "var_screenshots (record_call c m) = var_screenshots m"
  by (simp_all add: lifecycle_calls_def record_call_def)

lemma proj_logger_cleanup [simp]:
  "lifecycle_calls (logger_cleanup env m) = lifecycle_calls m @ [LoggerCleanup]"
  "var_stepsExecuted (logger_cleanup env m) = var_stepsExecuted m"
  "var_screenshots (logger_cleanup env m) = var_screenshots m"
  by (simp_all add: logger_cleanup_def)

lemma proj_collaborator [simp]:
  "lifecycle_calls (snd (collaborator f m)) = lifecycle_calls m"
  "var_stepsExecuted (snd (collaborator f m)) = var_stepsExecuted m"
  "var_screenshots (snd (collaborator f m)) = var_screenshots m"
  using frame_collaborator [of f m] by (simp_all add: frame_def)

lemma proj_primitive [simp]:
  "lifecycle_calls (snd (primitive f m)) = lifecycle_calls m"
  "var_stepsExecuted (snd (primitive f m)) = var_stepsExecuted m"
  "var_screenshots (snd (primitive f m)) = var_screenshots m"
  "logger (snd (primitive f m)) = logger m"
  using frame_primitive [of f m]
  by (simp_all add: frame_def) (simp add: primitive_def split: prod.splits)

lemma completion_result:
  assumes "completion env script startTime m = (ret, m')"
  shows "(\<exists>r. ret = Success r \<and> success r)
       \<and> lifecycle_calls m' = lifecycle_calls m @ [LoggerCleanup]"
  using assms by (auto simp add: completion_def Let_def make_result_def)

lemma run_steps_lifecycle:
  "run_steps env script config startTime page i sts m = (ret, m') \<Longrightarrow>
     (\<exists>r. ret = Success r) \<and> lifecycle_calls m' = lifecycle_calls m @ [LoggerCleanup]"
proof (induction sts arbitrary: i m)
  case Nil
  then show ?case using completion_result [of env script startTime m ret m'] by auto
next
  case (Cons st rest)
  show ?case
  proof (cases "run_step env script config startTime page i st m")
    case (Continue m1)
    with Cons.prems have "run_steps env script config startTime page (Suc i) rest m1 = (ret, m')"
      by simp
    from Cons.IH [OF this] run_step_Continue [OF Continue] show ?thesis by simp
  next
    case (Return x)
    from run_step_Return [OF Return] obtain err dur m4
      where x: "x = step_failed env script config startTime page i st dur err m4"
        and fr: "frame m4 = frame m" by blast
    from Cons.prems Return x
    have sf: "step_failed env script config startTime page i st dur err m4 = (ret, m')"
      by simp
    from step_failed_result(1,2) [OF sf] fr show ?thesis
      by (auto simp add: frame_def)
  qed
qed

lemma run_steps_prefix:
  "completed_prefix env script config startTime page i pre m = Some mK \<Longrightarrow>
     run_steps env script config startTime page i (pre @ rest) m
       = run_steps env script config startTime page (i + length pre) rest mK
     \<and> var_stepsExecuted mK = var_stepsExecuted m + length pre
     \<and> lifecycle_calls mK = lifecycle_calls m"
proof (induction pre arbitrary: i m)
  case Nil
  then show ?case by simp
next
  case (Cons st pre)
  show ?case
  proof (cases "run_step env script config startTime page i st m")
    case (Continue m1)
    with Cons.prems
    have "completed_prefix env script config startTime page (Suc i) pre m1 = Some mK"
      by simp
    from Cons.IH [OF this] run_step_Continue [OF Continue] Continue
    show ?thesis by simp
  next
    case (Return x)
    with Cons.prems show ?thesis by simp
  qed
qed

lemma run_steps_fail_here:
  assumes "run_result (step_attempts env config page i st m) = Failure err"
  shows "\<exists>dur m4. run_steps env script config startTime page i (st # rest) m
                    = step_failed env script config startTime page i st dur err m4
                 \<and> frame m4 = frame m"
proof -
  obtain x where r: "run_step env script config startTime page i st m = Return x"
    using assms by (simp add: run_step_def Let_def)
  from run_step_Return [OF r] assms obtain dur m4
    where "x = step_failed env script config startTime page i st dur err m4"
      and "frame m4 = frame m" by auto
  then show ?thesis using r by auto
qed

lemma proj_validation_passed [simp]:
  "lifecycle_calls (validation_passed env config vr m) = lifecycle_calls m"
  "var_stepsExecuted (validation_passed env config vr m) = var_stepsExecuted m"
  "var_screenshots (validation_passed env config vr m) = var_screenshots m"
  by (simp_all add: validation_passed_def Let_def)

lemma unexpected_error_result:
  assumes "unexpected_error env script startTime err m = (ret, m')"
  shows "(\<exists>r. ret = Success r \<and> \<not> success r \<and> stepsExecuted r = 0)
       \<and> lifecycle_calls m' = lifecycle_calls m @ [LoggerCleanup]"
  using assms by (auto simp add: unexpected_error_def Let_def make_result_def)

lemma acquire_browser_Continue:
  assumes "acquire_browser env script config startTime m2 = Continue (m, bc, page)"
  shows "lifecycle_calls m = lifecycle_calls m2 @ [InitializeBrowser]
       \<and> var_stepsExecuted m = var_stepsExecuted m2
       \<and> var_screenshots m = var_screenshots m2
       \<and> bc_page bc = Some page"
proof -
  let ?c = "collaborator (initializeBrowser env config) (record_call InitializeBrowser m2)"
  obtain out m3 where c: "?c = (out, m3)" by (cases ?c)
  have m3: "m3 = snd ?c" using c by simp
  have p: "lifecycle_calls m3 = lifecycle_calls m2 @ [InitializeBrowser]
         \<and> var_stepsExecuted m3 = var_stepsExecuted m2
         \<and> var_screenshots m3 = var_screenshots m2"
    unfolding m3 by simp
  from assms c p show ?thesis
    by (auto simp add: acquire_browser_def split: Outcome.splits Result.splits option.splits
        prod.splits)
qed

lemma acquire_browser_Return:
  assumes "acquire_browser env script config startTime m2 = Return (ret, m, ctl)"
  shows "(\<exists>e. ret = Failure (''Failed to initialize browser: '' @ e)
            \<and> lifecycle_calls m = lifecycle_calls m2 @ [InitializeBrowser] \<and> ctl = None)
       \<or> (\<exists>r. ret = Success r \<and> \<not> success r \<and> stepsExecuted r = 0
            \<and> lifecycle_calls m = lifecycle_calls m2 @ [InitializeBrowser, LoggerCleanup]
            \<and> ctl = None)
       \<or> (\<exists>bc. ret = Failure ''Browser page is not available''
            \<and> lifecycle_calls m = lifecycle_calls m2 @ [InitializeBrowser]
            \<and> ctl = Some bc \<and> bc_page bc = None)"
proof -
  let ?c = "collaborator (initializeBrowser env config) (record_call InitializeBrowser m2)"
  obtain out m3 where c: "?c = (out, m3)" by (cases ?c)
  have m3: "m3 = snd ?c" using c by simp
  have p: "lifecycle_calls m3 = lifecycle_calls m2 @ [InitializeBrowser]"
    unfolding m3 by simp
  show ?thesis
  proof (cases out)
    case (Thrown err)
    obtain r m4 where u: "unexpected_error env script startTime err m3 = (r, m4)"
      by (cases "unexpected_error env script startTime err m3")
    from assms c Thrown u have "ret = r" "m = m4" "ctl = None"
      by (simp_all add: acquire_browser_def)
    with unexpected_error_result [OF u] p show ?thesis by auto
  next
    case (Returned res)
    show ?thesis
    proof (cases res)
      case (Failure err)
      with assms c Returned have "ret = Failure (''Failed to initialize browser: '' @ err)"
        and "ctl = None"
        and "m = logger_call env
               (\<lambda>t. Logger_error t ''Failed to initialize browser''
                      (Some (JObj [(''error'', JStr err)])) None) m3"
        by (simp_all add: acquire_browser_def)
      with p show ?thesis by simp
    next
      case (Success browserController)
      show ?thesis
      proof (cases "bc_page browserController")
        case None
        with assms c Returned Success have "ret = Failure ''Browser page is not available''"
          and "ctl = Some browserController"
          and "m = logger_call env
                 (\<lambda>t. Logger_error t ''Browser page is not available'' None None) m3"
          by (simp_all add: acquire_browser_def)
        with p None show ?thesis by simp
      next
        case (Some page)
        with assms c Returned Success show ?thesis
          by (simp add: acquire_browser_def)
      qed
    qed
  qed
qed

lemma before_loop_Continue:
  assumes "before_loop env script config startTime m0 = Continue (m, bc, page)"
  shows "lifecycle_calls m = lifecycle_calls m0 @ [InitializeBrowser]
       \<and> var_stepsExecuted m = var_stepsExecuted m0
       \<and> var_screenshots m = var_screenshots m0
       \<and> bc_page bc = Some page
       \<and> vr_errors (validateScript (isValidUrl env) script) = []"
proof (cases "vr_errors (validateScript (isValidUrl env) script) = []")
  case False
  with assms show ?thesis by (simp add: before_loop_def Let_def)
next
  case True
  with assms obtain m2 where "acquire_browser env script config startTime m2 = Continue (m, bc, page)"
    and "lifecycle_calls m2 = lifecycle_calls m0 \<and> var_stepsExecuted m2 = var_stepsExecuted m0
         \<and> var_screenshots m2 = var_screenshots m0"
    by (simp add: before_loop_def Let_def)
  with acquire_browser_Continue [of env script config startTime m2 m bc page] True
  show ?thesis by simp
qed

lemma before_loop_Return:
  assumes "before_loop env script config startTime m0 = Return (ret, m, ctl)"
  shows "(vr_errors (validateScript (isValidUrl env) script) \<noteq> []
            \<and> ret = Failure (''Script validation failed:'' @ [CHR 0x0A] @
                    formatValidationResults (validation_icons env)
                      (validateScript (isValidUrl env) script))
            \<and> lifecycle_calls m = lifecycle_calls m0 \<and> ctl = None)
       \<or> (\<exists>e. ret = Failure (''Failed to initialize browser: '' @ e)
            \<and> lifecycle_calls m = lifecycle_calls m0 @ [InitializeBrowser] \<and> ctl = None)
       \<or> (\<exists>r. ret = Success r \<and> \<not> success r \<and> stepsExecuted r = 0
            \<and> lifecycle_calls m = lifecycle_calls m0 @ [InitializeBrowser, LoggerCleanup]
            \<and> ctl = None)
       \<or> (\<exists>bc. ret = Failure ''Browser page is not available''
            \<and> lifecycle_calls m = lifecycle_calls m0 @ [InitializeBrowser]
            \<and> ctl = Some bc \<and> bc_page bc = None)"
proof (cases "vr_errors (validateScript (isValidUrl env) script) = []")
  case False
  then have "\<exists>m2. before_loop env script config startTime m0 =
                 Return (Failure (''Script validation failed:'' @ [CHR 0x0A] @
                           formatValidationResults (validation_icons env)
                             (validateScript (isValidUrl env) script)), m2, None)
               \<and> lifecycle_calls m2 = lifecycle_calls m0"
    by (simp add: before_loop_def Let_def)
  then obtain m2 where b: "before_loop env script config startTime m0 =
                 Return (Failure (''Script validation failed:'' @ [CHR 0x0A] @
                           formatValidationResults (validation_icons env)
                             (validateScript (isValidUrl env) script)), m2, None)"
      and l: "lifecycle_calls m2 = lifecycle_calls m0"
    by blast
  from b assms have "ret = Failure (''Script validation failed:'' @ [CHR 0x0A] @
                           formatValidationResults (validation_icons env)
                             (validateScript (isValidUrl env) script))"
    and "m = m2" and "ctl = None"
    by simp_all
  with False l show ?thesis by blast
next
  case True
  with assms obtain m2 where a: "acquire_browser env script config startTime m2 = Return (ret, m, ctl)"
    and l: "lifecycle_calls m2 = lifecycle_calls m0"
    by (simp add: before_loop_def Let_def)
  from acquire_browser_Return [OF a] l show ?thesis by simp
qed

text \<open>
  Every path that returns an \<open>ExecutionResult\<close> hands over a logger just as \<open>cleanup\<close> left
  it.
\<close>

lemma logger_cleanup_applied:
  "logger (logger_cleanup env m) = Logger_cleanup (date_now env m) (logger m)"
  by (simp add: logger_cleanup_def logger_call_def tick_def record_call_def date_now_def)

lemma step_failed_cleaned:
  assumes "step_failed env script config startTime page i st dur err m4 = (ret, m')"
  shows "\<exists>t lg. logger m' = Logger_cleanup t lg"
proof -
  from assms have "\<exists>X. m' = logger_cleanup env X"
    by (auto simp add: step_failed_def Let_def)
  then show ?thesis using logger_cleanup_applied by blast
qed

lemma completion_cleaned:
  assumes "completion env script startTime m = (ret, m')"
  shows "\<exists>t lg. logger m' = Logger_cleanup t lg"
proof -
  from assms have "\<exists>X. m' = logger_cleanup env X"
    by (auto simp add: completion_def Let_def)
  then show ?thesis using logger_cleanup_applied by blast
qed

lemma unexpected_error_cleaned:
  assumes "unexpected_error env script startTime err m = (ret, m')"
  shows "\<exists>t lg. logger m' = Logger_cleanup t lg"
proof -
  from assms have "\<exists>X. m' = logger_cleanup env X"
    by (auto simp add: unexpected_error_def Let_def)
  then show ?thesis using logger_cleanup_applied by blast
qed

lemma run_steps_cleaned:
  "run_steps env script config startTime page i sts m = (ret, m') \<Longrightarrow>
     \<exists>t lg. logger m' = Logger_cleanup t lg"
proof (induction sts arbitrary: i m)
  case Nil
  then show ?case using completion_cleaned [of env script startTime m ret m'] by simp
next
  case (Cons st rest)
  show ?case
  proof (cases "run_step env script config startTime page i st m")
    case (Continue m1)
    with Cons.prems have "run_steps env script config startTime page (Suc i) rest m1 = (ret, m')"
      by simp
    then show ?thesis by (rule Cons.IH)
  next
    case (Return x)
    from run_step_Return [OF Return] obtain err dur m4
      where x: "x = step_failed env script config startTime page i st dur err m4" by blast
    from Cons.prems Return x
    have "step_failed env script config startTime page i st dur err m4 = (ret, m')"
      by simp
    then show ?thesis by (rule step_failed_cleaned)
  qed
qed

lemma acquire_browser_cleaned:
  assumes "acquire_browser env script config startTime m2 = Return (Success r, m, ctl)"
  shows "\<exists>t lg. logger m = Logger_cleanup t lg"
proof -
  let ?c = "collaborator (initializeBrowser env config) (record_call InitializeBrowser m2)"
  obtain out m3 where c: "?c = (out, m3)" by (cases ?c)
  show ?thesis
  proof (cases out)
    case (Thrown err)
    obtain r' m4 where u: "unexpected_error env script startTime err m3 = (r', m4)"
      by (cases "unexpected_error env script startTime err m3")
    from assms c Thrown u have "m = m4" by (simp add: acquire_browser_def)
    with unexpected_error_cleaned [OF u] show ?thesis by simp
  next
    case (Returned res)
    with assms c show ?thesis
      by (simp add: acquire_browser_def split: Result.splits option.splits)
  qed
qed

lemma try_block_cleaned:
  assumes "try_block env script config startTime m0 = (Success r, m, ctl)"
  shows "\<exists>t lg. logger m = Logger_cleanup t lg"
proof (cases "before_loop env script config startTime m0")
  case (Return x)
  with assms have b: "before_loop env script config startTime m0 = Return (Success r, m, ctl)"
    by (simp add: try_block_def)
  then obtain m2 where "acquire_browser env script config startTime m2 = Return (Success r, m, ctl)"
    by (auto simp add: before_loop_def Let_def split: if_splits)
  then show ?thesis by (rule acquire_browser_cleaned)
next
  case (Continue y)
  obtain m1 bc page where y: "y = (m1, bc, page)" by (cases y)
  obtain ret m' where rs: "run_steps env script config startTime page 0 (steps script) m1 = (ret, m')"
    by (cases "run_steps env script config startTime page 0 (steps script) m1")
  from assms Continue y rs have "m = m'" by (simp add: try_block_def)
  with run_steps_cleaned [OF rs] show ?thesis by simp
qed

lemma executeScript_cleaned:
  assumes "fst (executeScript env script config w) = Success r"
  shows "\<exists>t lg. logger (finally_entry env script config w) = Logger_cleanup t lg"
proof -
  let ?tb = "try_block env script config (date_now env (initial_run env config w))
               (tick (initial_run env config w))"
  obtain ret m ctl where tb: "?tb = (ret, m, ctl)" by (cases ?tb)
  have m: "finally_entry env script config w = m" by (simp add: finally_entry_def tb)
  from assms have "fst (finally_block env (ret, m, ctl)) = Success r"
    by (simp add: executeScript_def Let_def tb)
  then obtain r0 where "ret = Success r0"
    by (cases ret; cases ctl) (simp_all add: finally_block_def Let_def)
  with tb have "?tb = (Success r0, m, ctl)" by simp
  from try_block_cleaned [OF this] show ?thesis by (simp add: m)
qed

subsection \<open>Closing the browser\<close>

text \<open>
  \<open>closeBrowser\<close> closes a prefix of the handles the controller holds, in the order page,
  context, browser; the whole of them when no close rejects.
\<close>

lemma closeBrowser_lifecycle:
  "\<exists>n. lifecycle_calls (snd (closeBrowser env bc m))
          = lifecycle_calls m @ CloseBrowser # take n (present_closes bc)
      \<and> (closes_never_reject env \<longrightarrow> n = length (present_closes bc))"
proof -
  let ?m = "record_call CloseBrowser m"
  let ?p = "case bc_page bc of None \<Rightarrow> (None, ?m)
            | Some h \<Rightarrow> primitive (page_close env h) (record_call PageClose ?m)"
  let ?c = "case bc_context bc of None \<Rightarrow> (None, snd ?p)
            | Some h \<Rightarrow> primitive (context_close env h) (record_call ContextClose (snd ?p))"
  let ?b = "case bc_browser bc of None \<Rightarrow> (None, snd ?c)
            | Some h \<Rightarrow> primitive (browser_close env h) (record_call BrowserClose (snd ?c))"
  let ?P = "case bc_page bc of None \<Rightarrow> [] | Some h \<Rightarrow> [PageClose]"
  let ?C = "case bc_context bc of None \<Rightarrow> [] | Some h \<Rightarrow> [ContextClose]"
  let ?B = "case bc_browser bc of None \<Rightarrow> [] | Some h \<Rightarrow> [BrowserClose]"
  have lp: "lifecycle_calls (snd ?p) = lifecycle_calls m @ CloseBrowser # ?P"
    by (simp split: option.split)
  have lc: "lifecycle_calls (snd ?c) = lifecycle_calls m @ CloseBrowser # ?P @ ?C"
    by (simp add: lp split: option.split)
  have lb: "lifecycle_calls (snd ?b) = lifecycle_calls m @ CloseBrowser # ?P @ ?C @ ?B"
    by (simp add: lc split: option.split)
  have np: "closes_never_reject env \<Longrightarrow> fst ?p = None"
    by (simp add: closes_never_reject_def primitive_def split_beta split: option.split)
  have nc: "closes_never_reject env \<Longrightarrow> fst ?c = None"
    by (simp add: closes_never_reject_def primitive_def split_beta split: option.split)
  have nb: "closes_never_reject env \<Longrightarrow> fst ?b = None"
    by (simp add: closes_never_reject_def primitive_def split_beta split: option.split)
  have cb: "snd (closeBrowser env bc m) =
     (case fst ?p of Some err \<Rightarrow> snd ?p
      | None \<Rightarrow> (case fst ?c of Some err \<Rightarrow> snd ?c | None \<Rightarrow> snd ?b))"
    by (simp add: closeBrowser_def Let_def split_beta split: option.split)
  have t1: "take (length ?P) (present_closes bc) = ?P"
    by (simp add: present_closes_def)
  have t2: "take (length ?P + length ?C) (present_closes bc) = ?P @ ?C"
    by (simp add: present_closes_def)
  show ?thesis
  proof (cases "fst ?p")
    case (Some err)
    have "snd (closeBrowser env bc m) = snd ?p"
      using Some by (simp only: cb option.case)
    then have "lifecycle_calls (snd (closeBrowser env bc m))
            = lifecycle_calls m @ CloseBrowser # take (length ?P) (present_closes bc)"
      by (simp only: lp t1)
    moreover have "\<not> closes_never_reject env" using np Some by auto
    ultimately show ?thesis by blast
  next
    case None
    note pn = None
    show ?thesis
    proof (cases "fst ?c")
      case (Some err)
      have "snd (closeBrowser env bc m) = snd ?c"
        using Some pn by (simp only: cb option.case)
      then have "lifecycle_calls (snd (closeBrowser env bc m))
              = lifecycle_calls m @ CloseBrowser # take (length ?P + length ?C) (present_closes bc)"
        by (simp only: lc t2)
      moreover have "\<not> closes_never_reject env" using nc Some by auto
      ultimately show ?thesis by blast
    next
      case None
      have "snd (closeBrowser env bc m) = snd ?b"
        using None pn by (simp only: cb option.case)
      then have "lifecycle_calls (snd (closeBrowser env bc m))
              = lifecycle_calls m @ CloseBrowser #
                  take (length (present_closes bc)) (present_closes bc)"
        by (simp only: lb) (simp add: present_closes_def)
      then show ?thesis by blast
    qed
  qed
qed

lemma closeBrowser_keeps:
  "logger (snd (closeBrowser env bc m)) = logger m
   \<and> var_screenshots (snd (closeBrowser env bc m)) = var_screenshots m
   \<and> var_stepsExecuted (snd (closeBrowser env bc m)) = var_stepsExecuted m"
  by (simp add: closeBrowser_def Let_def split_beta record_call_def split: option.split)

lemma Logger_browser_logged:
  "capture_failure_logged lg \<Longrightarrow> capture_failure_logged (Logger_browser t a msg d lg)"
  using Logger_log_buffer_mono
  by (fastforce simp add: capture_failure_logged_def Logger_browser_def list_ex_iff)

lemma closeBrowser_calls_mono:
  "set (calls m) \<subseteq> set (calls (snd (closeBrowser env bc m)))"
  by (auto simp add: closeBrowser_def Let_def split_beta primitive_def record_call_def
      split: option.splits)

lemma finally_block_None [simp]: "finally_block env (ret, m, None) = (ret, m)"
  by (simp add: finally_block_def)

lemma finally_block_Some:
  "\<exists>m' n. finally_block env (ret, m, Some bc) =
            (case ret of Success r \<Rightarrow> Success (r\<lparr>result_logs := var_logs m'\<rparr>)
             | Failure e \<Rightarrow> Failure e, m')
     \<and> lifecycle_calls m' = lifecycle_calls m @ CloseBrowser # take n (present_closes bc)
     \<and> (closes_never_reject env \<longrightarrow> n = length (present_closes bc))
     \<and> var_screenshots m' = var_screenshots m
     \<and> (capture_failure_logged (logger m) \<longrightarrow> capture_failure_logged (logger m'))
     \<and> set (calls m) \<subseteq> set (calls m')"
proof -
  from closeBrowser_lifecycle [of env bc m] obtain n
    where n: "lifecycle_calls (snd (closeBrowser env bc m))
                = lifecycle_calls m @ CloseBrowser # take n (present_closes bc)"
      and full: "closes_never_reject env \<longrightarrow> n = length (present_closes bc)" by blast
  let ?m3 = "push_log env 0 ''browser_cleanup'' status_success ''Browser closed'' None
               (logger_call env (\<lambda>t. Logger_browser t ''cleanup'' ''Browser closed'' [])
                  (snd (closeBrowser env bc m)))"
  have "finally_block env (ret, m, Some bc) =
          (case ret of Success r \<Rightarrow> Success (r\<lparr>result_logs := var_logs ?m3\<rparr>)
           | Failure e \<Rightarrow> Failure e, ?m3)"
    by (simp add: finally_block_def Let_def)
  moreover have "lifecycle_calls ?m3 = lifecycle_calls m @ CloseBrowser # take n (present_closes bc)"
    using n by simp
  moreover have "var_screenshots ?m3 = var_screenshots m"
    using closeBrowser_keeps [of env bc m] by simp
  moreover have "capture_failure_logged (logger m) \<longrightarrow> capture_failure_logged (logger ?m3)"
    using closeBrowser_keeps [of env bc m] Logger_browser_logged
    by (simp add: push_log_def logger_call_def tick_def)
  moreover have "set (calls m) \<subseteq> set (calls ?m3)"
    using closeBrowser_calls_mono [of m env bc]
    by (simp add: push_log_def logger_call_def tick_def)
  ultimately show ?thesis using full by blast
qed

text \<open>What \<open>closeBrowser\<close> does to the driver, handle by handle.\<close>

lemma closeBrowser_page_rejects:
  assumes "bc_page bc = Some p" and "page_close env p (world m) = (Some err, w1)"
  shows "closeBrowser env bc m =
           (Failure (''Failed to close browser: '' @ err),
            m\<lparr>calls := calls m @ [CloseBrowser, PageClose], world := w1\<rparr>)"
  using assms by (simp add: closeBrowser_def Let_def primitive_def record_call_def)

lemma closeBrowser_context_rejects:
  assumes "bc_page bc = Some p" and "page_close env p (world m) = (None, w1)"
    and "bc_context bc = Some c" and "context_close env c w1 = (Some err, w2)"
  shows "closeBrowser env bc m =
           (Failure (''Failed to close browser: '' @ err),
            m\<lparr>calls := calls m @ [CloseBrowser, PageClose, ContextClose], world := w2\<rparr>)"
  using assms by (simp add: closeBrowser_def Let_def primitive_def record_call_def)

lemma closeBrowser_all_closed:
  assumes "bc_page bc = Some p" and "page_close env p (world m) = (None, w1)"
    and "bc_context bc = Some c" and "context_close env c w1 = (None, w2)"
    and "bc_browser bc = Some b" and "browser_close env b w2 = (None, w3)"
  shows "closeBrowser env bc m =
           (Success (),
            m\<lparr>calls := calls m @ [CloseBrowser, PageClose, ContextClose, BrowserClose],
              world := w3\<rparr>)"
  using assms by (simp add: closeBrowser_def Let_def primitive_def record_call_def)

subsection \<open>The exits of a run\<close>

lemma initial_run_frame [simp]:
  "lifecycle_calls (initial_run env config w) = []"
  "var_stepsExecuted (initial_run env config w) = 0"
  "var_screenshots (initial_run env config w) = []"
  by (simp_all add: initial_run_def lifecycle_calls_def)

lemma present_closes_no_cleanup [simp]:
  "count_list (take n (present_closes bc)) LoggerCleanup = 0"
  "CloseBrowser \<notin> set (take n (present_closes bc))"
proof -
  have "set (take n (present_closes bc)) \<subseteq> {PageClose, ContextClose, BrowserClose}"
    using set_take_subset [of n "present_closes bc"]
    by (auto simp add: present_closes_def split: option.splits)
  then show "count_list (take n (present_closes bc)) LoggerCleanup = 0"
    and "CloseBrowser \<notin> set (take n (present_closes bc))"
    by (auto simp add: count_list_0_iff)
qed

lemma present_closes_no_cleanup_all [simp]:
  "count_list (present_closes bc) LoggerCleanup = 0"
  "CloseBrowser \<notin> set (present_closes bc)"
  using present_closes_no_cleanup [of "length (present_closes bc)" bc] by simp_all

text \<open>Every run of \<open>executeScript\<close> ends in one of five ways.\<close>

lemma executeScript_shapes:
  fixes env :: "'w env" and script config w
  defines "R \<equiv> executeScript env script config w"
    and "ac \<equiv> acquired_controller env script config w"
  shows
    "(ac = None \<and> (\<exists>e. fst R = Failure e) \<and> lifecycle_calls (snd R) = [])
   \<or> (ac = None \<and> (\<exists>e. fst R = Failure e) \<and> lifecycle_calls (snd R) = [InitializeBrowser])
   \<or> (ac = None \<and> (\<exists>r. fst R = Success r \<and> \<not> success r \<and> stepsExecuted r = 0)
        \<and> lifecycle_calls (snd R) = [InitializeBrowser, LoggerCleanup])
   \<or> (\<exists>bc n. ac = Some bc \<and> bc_page bc = None
        \<and> fst R = Failure ''Browser page is not available''
        \<and> lifecycle_calls (snd R) = [InitializeBrowser, CloseBrowser] @ take n (present_closes bc)
        \<and> (closes_never_reject env \<longrightarrow> n = length (present_closes bc)))
   \<or> (\<exists>bc n r. ac = Some bc \<and> fst R = Success r
        \<and> lifecycle_calls (snd R)
            = [InitializeBrowser, LoggerCleanup, CloseBrowser] @ take n (present_closes bc)
        \<and> (closes_never_reject env \<longrightarrow> n = length (present_closes bc)))"
proof -
  let ?t0 = "date_now env (initial_run env config w)"
  let ?m0 = "tick (initial_run env config w)"
  have R: "R = finally_block env (try_block env script config ?t0 ?m0)"
    by (simp add: R_def executeScript_def Let_def)
  have ac: "ac = snd (snd (try_block env script config ?t0 ?m0))"
    by (simp add: ac_def acquired_controller_def)
  have l0: "lifecycle_calls ?m0 = []" by simp
  show ?thesis
  proof (cases "before_loop env script config ?t0 ?m0")
    case (Return x)
    obtain ret m ctl where x: "x = (ret, m, ctl)" by (cases x)
    have tb: "try_block env script config ?t0 ?m0 = (ret, m, ctl)"
      using Return x by (simp add: try_block_def)
    from before_loop_Return [OF Return [unfolded x]] l0
    consider (a) "\<exists>e. ret = Failure e" "lifecycle_calls m = []" "ctl = None"
      | (b) "\<exists>e. ret = Failure e" "lifecycle_calls m = [InitializeBrowser]" "ctl = None"
      | (c) "\<exists>r. ret = Success r \<and> \<not> success r \<and> stepsExecuted r = 0"
            "lifecycle_calls m = [InitializeBrowser, LoggerCleanup]" "ctl = None"
      | (d) bc where "ret = Failure ''Browser page is not available''"
            "lifecycle_calls m = [InitializeBrowser]" "ctl = Some bc" "bc_page bc = None"
      by auto
    then show ?thesis
    proof cases
      case a
      then show ?thesis by (simp add: R ac tb)
    next
      case b
      then show ?thesis by (simp add: R ac tb)
    next
      case c
      then show ?thesis by (simp add: R ac tb)
    next
      case d
      from finally_block_Some [of env ret m bc] obtain m' n
        where "finally_block env (ret, m, Some bc) =
                 (case ret of Success r \<Rightarrow> Success (r\<lparr>result_logs := var_logs m'\<rparr>)
                  | Failure e \<Rightarrow> Failure e, m')"
          and "lifecycle_calls m' = lifecycle_calls m @ CloseBrowser # take n (present_closes bc)"
          and "closes_never_reject env \<longrightarrow> n = length (present_closes bc)"
        by blast
      with d have "ac = Some bc \<and> bc_page bc = None
        \<and> fst R = Failure ''Browser page is not available''
        \<and> lifecycle_calls (snd R) = [InitializeBrowser, CloseBrowser] @ take n (present_closes bc)
        \<and> (closes_never_reject env \<longrightarrow> n = length (present_closes bc))"
        by (simp add: R ac tb)
      then show ?thesis by blast
    qed
  next
    case (Continue y)
    obtain m1 bc page where y: "y = (m1, bc, page)" by (cases y)
    obtain ret m where rs: "run_steps env script config ?t0 page 0 (steps script) m1 = (ret, m)"
      by (cases "run_steps env script config ?t0 page 0 (steps script) m1")
    have tb: "try_block env script config ?t0 ?m0 = (ret, m, Some bc)"
      using Continue y rs by (simp add: try_block_def)
    from before_loop_Continue [OF Continue [unfolded y]] l0
    have l1: "lifecycle_calls m1 = [InitializeBrowser]" by simp
    from run_steps_lifecycle [OF rs] l1 obtain r where r: "ret = Success r"
      and lm: "lifecycle_calls m = [InitializeBrowser, LoggerCleanup]" by auto
    from finally_block_Some [of env ret m bc] obtain m' n
      where "finally_block env (ret, m, Some bc) =
               (case ret of Success r \<Rightarrow> Success (r\<lparr>result_logs := var_logs m'\<rparr>)
                | Failure e \<Rightarrow> Failure e, m')"
        and "lifecycle_calls m' = lifecycle_calls m @ CloseBrowser # take n (present_closes bc)"
        and "closes_never_reject env \<longrightarrow> n = length (present_closes bc)"
      by blast
    with r lm have "ac = Some bc \<and> fst R = Success (r\<lparr>result_logs := var_logs m'\<rparr>)
        \<and> lifecycle_calls (snd R)
            = [InitializeBrowser, LoggerCleanup, CloseBrowser] @ take n (present_closes bc)
        \<and> (closes_never_reject env \<longrightarrow> n = length (present_closes bc))"
      by (simp add: R ac tb)
    then show ?thesis by blast
  qed
qed

lemma executeScript_finally:
  assumes "acquired_controller env script config w = Some bc"
  shows "calls (snd (executeScript env script config w))
           = calls (snd (closeBrowser env bc (finally_entry env script config w)))"
    and "world (snd (executeScript env script config w))
           = world (snd (closeBrowser env bc (finally_entry env script config w)))"
proof -
  let ?tb = "try_block env script config (date_now env (initial_run env config w))
               (tick (initial_run env config w))"
  obtain ret m ctl where tb: "?tb = (ret, m, ctl)" by (cases ?tb)
  have ctl: "ctl = Some bc" using assms by (simp add: acquired_controller_def tb)
  have m: "finally_entry env script config w = m" by (simp add: finally_entry_def tb)
  have ex: "executeScript env script config w = finally_block env (ret, m, Some bc)"
    using tb ctl by (simp add: executeScript_def Let_def)
  show "calls (snd (executeScript env script config w))
           = calls (snd (closeBrowser env bc (finally_entry env script config w)))"
    and "world (snd (executeScript env script config w))
           = world (snd (closeBrowser env bc (finally_entry env script config w)))"
    unfolding ex m
    by (simp_all add: finally_block_def Let_def push_log_def logger_call_def tick_def)
qed

lemma executeScript_no_controller:
  assumes "acquired_controller env script config w = None"
  shows "set (lifecycle_calls (snd (executeScript env script config w)))
           \<subseteq> {InitializeBrowser, LoggerCleanup}"
  using executeScript_shapes [of env script config w] assms by auto

subsection \<open>An example world\<close>

text \<open>
  A small world for examples: a driver that hands out a controller with all three handles,
  performs every step except the second of a script, which it declares failed, and captures
  every screenshot. Its one parameter says whether closing the page rejects.
\<close>

definition example_controller :: BrowserController where
  "example_controller = \<lparr>bc_browser = Some 1, bc_context = Some 2, bc_page = Some 3\<rparr>"

definition example_env :: "bool \<Rightarrow> unit env" where
  "example_env page_close_rejects =
     \<lparr>isValidUrl = (\<lambda>u. startsWith u ''http''),
      validation_icons = \<lparr>icon_passed = ''[ok]'', icon_failed = ''[failed]'',
                           icon_warning = ''[warning]''\<rparr>,
      path_join = example_join,
      generateSessionId = ''2026-01-01T00-00-00-000Z-abc123'',
      clock = (\<lambda>n. 1000 + int n),
      toISOString = (\<lambda>t. ''2026-01-01T00:00:00.000Z''),
      initializeBrowser = (\<lambda>cfg s. (Returned (Success example_controller), s)),
      executeActionStep =
        (\<lambda>page st cfg n s.
           (if n = 2 then Returned (Failure ''Element not found: #invalid-button'')
            else Returned (Success None), s)),
      existsSync = (\<lambda>p w. True),
      mkdir = (\<lambda>p w. (None, w)),
      fs_stat = (\<lambda>p w. Inr 2048),
      page_screenshot = (\<lambda>h p w. (None, w)),
      page_close = (\<lambda>h w. (if page_close_rejects then Some ''Error: Target closed'' else None, w)),
      context_close = (\<lambda>h w. (None, w)),
      browser_close = (\<lambda>h w. (None, w))\<rparr>"

definition click_step :: "string \<Rightarrow> ActionStep" where
  "click_step sel =
     \<lparr>step_type = ''click'', selector = Some sel, step_value = None, url = None,
      timeout = None, description = None\<rparr>"

definition type_step :: "string \<Rightarrow> string \<Rightarrow> ActionStep" where
  "type_step sel txt =
     \<lparr>step_type = ''type'', selector = Some sel, step_value = Some (StrValue txt), url = None,
      timeout = None, description = None\<rparr>"

definition three_steps :: AutomationScript where
  "three_steps =
     \<lparr>script_name = ''Multi-step Script'', script_description = Some ''Test step failure'',
      baseUrl = None,
      steps = [click_step ''#button1'', click_step ''#invalid-button'',
               type_step ''#input1'' ''test text'']\<rparr>"

definition no_steps :: AutomationScript where
  "no_steps =
     \<lparr>script_name = ''Test Script'', script_description = Some ''Test description'',
      baseUrl = None, steps = []\<rparr>"

text \<open>The same world, no close rejecting, with a driver that rejects every screenshot.\<close>

definition capture_failing_env :: "unit env" where
  "capture_failing_env =
     (example_env False)\<lparr>page_screenshot := (\<lambda>h p w. (Some ''Error: Target closed'', w))\<rparr>"

text \<open>
  The run of the three-step script in the example world, up to the \<open>finally\<close> block and
  through it, when no close rejects and when closing the page rejects.
\<close>

lemma example_run:
  "case try_block (example_env False) three_steps example_config
          (date_now (example_env False) (initial_run (example_env False) example_config ()))
          (tick (initial_run (example_env False) example_config ())) of
     (ret, m, ctl) \<Rightarrow>
       ctl = Some example_controller
       \<and> (case finally_block (example_env False) (ret, m, ctl) of
            (res, m') \<Rightarrow>
              (case res of Success r \<Rightarrow> True | Failure e \<Rightarrow> False)
              \<and> calls m' =
                  [InitializeBrowser, ExecuteActionStep 1, ExecuteActionStep 2,
                   ExecuteActionStep 2,
                   PageScreenshot ''./logs/screenshots/error-step-2-1014.png'',
                   LoggerCleanup, CloseBrowser, PageClose, ContextClose, BrowserClose])"
  by code_simp

lemma rejecting_run:
  "case try_block (example_env True) three_steps example_config
          (date_now (example_env True) (initial_run (example_env True) example_config ()))
          (tick (initial_run (example_env True) example_config ())) of
     (ret, m, ctl) \<Rightarrow>
       ctl = Some example_controller
       \<and> (case finally_block (example_env True) (ret, m, ctl) of
            (res, m') \<Rightarrow>
              calls m' =
                  [InitializeBrowser, ExecuteActionStep 1, ExecuteActionStep 2,
                   ExecuteActionStep 2,
                   PageScreenshot ''./logs/screenshots/error-step-2-1014.png'',
                   LoggerCleanup, CloseBrowser, PageClose])"
  by code_simp

subsection \<open>Validation failure\<close>

text \<open>
  C5. When the validator reports at least one error for the script, \<open>executeScript\<close> returns
  a top-level failure that carries the formatted validation report, and the driver is never
  touched: \<open>initializeBrowser\<close> is not called, no call is made at all, and the world is as
  it was.
\<close>

theorem validation_failure_opens_no_browser:
  assumes "vr_errors (validateScript (isValidUrl env) script) \<noteq> []"
  shows "fst (executeScript env script config w) =
           Failure (''Script validation failed:'' @ [CHR 0x0A] @
                    formatValidationResults (validation_icons env)
                      (validateScript (isValidUrl env) script))
       \<and> InitializeBrowser \<notin> set (calls (snd (executeScript env script config w)))
       \<and> calls (snd (executeScript env script config w)) = []
       \<and> world (snd (executeScript env script config w)) = w"
  using assms
  by (simp add: executeScript_def try_block_def before_loop_def finally_block_def Let_def
      initial_run_def logger_call_def tick_def)

theorem validation_failure_opens_no_browser_witness:
  "vr_errors (validateScript (isValidUrl (example_env False)) no_steps) \<noteq> []
   \<and> fst (executeScript (example_env False) no_steps example_config ()) =
       Failure (''Script validation failed:'' @ [CHR 0x0A] @
                formatValidationResults (validation_icons (example_env False))
                  (validateScript (isValidUrl (example_env False)) no_steps))
   \<and> InitializeBrowser \<notin> set (calls (snd (executeScript (example_env False) no_steps
                                             example_config ())))"
proof -
  have h: "vr_errors (validateScript (isValidUrl (example_env False)) no_steps) \<noteq> []"
    by (simp add: validateScript_def no_steps_def Let_def)
  show ?thesis
    using validation_failure_opens_no_browser [OF h, of example_config "()"] h by simp
qed

subsection \<open>Teardown\<close>

text \<open>
  C6, as the code has it. The \<open>finally\<close> block closes the browser only when a controller was
  acquired. Then \<open>closeBrowser\<close> is called once, as the last lifecycle action of the run, and
  the run leaves the driver and the call trace as that call leaves them. \<open>closeBrowser\<close>
  closes page, context and browser in this order inside one \<open>try\<close> block: the first close
  that rejects ends it with a failure \<open>Result\<close> (which the \<open>finally\<close> block ignores) and
  the handles after it stay open; when no close rejects, every handle the controller holds is
  closed. When no controller was acquired, nothing is closed. The logger's \<open>cleanup\<close> is
  called exactly once on a run that returns an \<open>ExecutionResult\<close> (a failed step, full
  success, an unexpected fault), which enters the \<open>finally\<close> block with the logger as
  \<open>cleanup\<close> left it, and not at all on a run that returns a top-level failure (validation
  failure, browser initialisation failure, no page).
\<close>

theorem teardown_on_exit:
  fixes env :: "'w env"
  shows
  "(\<forall>bc. acquired_controller env script config w = Some bc \<longrightarrow>
      (\<exists>pre n. lifecycle_calls (snd (executeScript env script config w))
                 = pre @ CloseBrowser # take n (present_closes bc)
             \<and> CloseBrowser \<notin> set pre
             \<and> (closes_never_reject env \<longrightarrow> n = length (present_closes bc)))
      \<and> calls (snd (executeScript env script config w))
          = calls (snd (closeBrowser env bc (finally_entry env script config w)))
      \<and> world (snd (executeScript env script config w))
          = world (snd (closeBrowser env bc (finally_entry env script config w))))
   \<and> (acquired_controller env script config w = None \<longrightarrow>
        set (lifecycle_calls (snd (executeScript env script config w)))
          \<subseteq> {InitializeBrowser, LoggerCleanup})
   \<and> (\<forall>r. fst (executeScript env script config w) = Success r \<longrightarrow>
        count_list (lifecycle_calls (snd (executeScript env script config w))) LoggerCleanup = 1
        \<and> (\<exists>t lg. logger (finally_entry env script config w) = Logger_cleanup t lg))
   \<and> (\<forall>e. fst (executeScript env script config w) = Failure e \<longrightarrow>
        count_list (lifecycle_calls (snd (executeScript env script config w))) LoggerCleanup = 0)
   \<and> (\<forall>bc (m :: 'w Run) p err w1.
        bc_page bc = Some p \<and> page_close env p (world m) = (Some err, w1) \<longrightarrow>
        closeBrowser env bc m =
          (Failure (''Failed to close browser: '' @ err),
           m\<lparr>calls := calls m @ [CloseBrowser, PageClose], world := w1\<rparr>))
   \<and> (\<forall>bc (m :: 'w Run) p c err w1 w2.
        bc_page bc = Some p \<and> page_close env p (world m) = (None, w1)
        \<and> bc_context bc = Some c \<and> context_close env c w1 = (Some err, w2) \<longrightarrow>
        closeBrowser env bc m =
          (Failure (''Failed to close browser: '' @ err),
           m\<lparr>calls := calls m @ [CloseBrowser, PageClose, ContextClose], world := w2\<rparr>))
   \<and> (\<forall>bc (m :: 'w Run) p c b w1 w2 w3.
        bc_page bc = Some p \<and> page_close env p (world m) = (None, w1)
        \<and> bc_context bc = Some c \<and> context_close env c w1 = (None, w2)
        \<and> bc_browser bc = Some b \<and> browser_close env b w2 = (None, w3) \<longrightarrow>
        closeBrowser env bc m =
          (Success (),
           m\<lparr>calls := calls m @ [CloseBrowser, PageClose, ContextClose, BrowserClose],
             world := w3\<rparr>))"
  (is "?acquired \<and> ?none \<and> ?cleanup \<and> ?nocleanup \<and> ?page \<and> ?ctxclose \<and> ?all")
proof (intro conjI)
  show ?acquired
  proof (intro allI impI conjI)
    fix bc
    assume a: "acquired_controller env script config w = Some bc"
    from executeScript_shapes [of env script config w] a
    consider n where "lifecycle_calls (snd (executeScript env script config w))
                        = [InitializeBrowser] @ CloseBrowser # take n (present_closes bc)"
                     "closes_never_reject env \<longrightarrow> n = length (present_closes bc)"
      | n where "lifecycle_calls (snd (executeScript env script config w))
                   = [InitializeBrowser, LoggerCleanup] @ CloseBrowser # take n (present_closes bc)"
                "closes_never_reject env \<longrightarrow> n = length (present_closes bc)"
      by auto
    then show "\<exists>pre n. lifecycle_calls (snd (executeScript env script config w))
                   = pre @ CloseBrowser # take n (present_closes bc)
               \<and> CloseBrowser \<notin> set pre
               \<and> (closes_never_reject env \<longrightarrow> n = length (present_closes bc))"
    proof cases
      case 1
      then show ?thesis by (intro exI [of _ "[InitializeBrowser]"] exI [of _ n]) simp
    next
      case 2
      then show ?thesis
        by (intro exI [of _ "[InitializeBrowser, LoggerCleanup]"] exI [of _ n]) simp
    qed
    show "calls (snd (executeScript env script config w))
            = calls (snd (closeBrowser env bc (finally_entry env script config w)))"
      by (rule executeScript_finally(1) [OF a])
    show "world (snd (executeScript env script config w))
            = world (snd (closeBrowser env bc (finally_entry env script config w)))"
      by (rule executeScript_finally(2) [OF a])
  qed
  show ?none
    using executeScript_no_controller [of env script config w] by blast
  show ?cleanup
  proof (intro allI impI conjI)
    fix r
    assume s: "fst (executeScript env script config w) = Success r"
    with executeScript_shapes [of env script config w]
    show "count_list (lifecycle_calls (snd (executeScript env script config w))) LoggerCleanup = 1"
      by auto
    show "\<exists>t lg. logger (finally_entry env script config w) = Logger_cleanup t lg"
      by (rule executeScript_cleaned [OF s])
  qed
  show ?nocleanup
  proof (intro allI impI)
    fix e
    assume "fst (executeScript env script config w) = Failure e"
    with executeScript_shapes [of env script config w]
    show "count_list (lifecycle_calls (snd (executeScript env script config w))) LoggerCleanup = 0"
      by auto
  qed
  show ?page using closeBrowser_page_rejects [of _ _ env] by blast
  show ?ctxclose using closeBrowser_context_rejects [of _ _ env] by blast
  show ?all using closeBrowser_all_closed [of _ _ env] by blast
qed

theorem teardown_on_exit_witness:
  "acquired_controller (example_env False) three_steps example_config () = Some example_controller
   \<and> closes_never_reject (example_env False)
   \<and> (\<exists>pre. lifecycle_calls (snd (executeScript (example_env False) three_steps example_config ()))
               = pre @ [CloseBrowser, PageClose, ContextClose, BrowserClose]
            \<and> CloseBrowser \<notin> set pre)
   \<and> count_list (lifecycle_calls (snd (executeScript (example_env False) three_steps
                                          example_config ()))) LoggerCleanup = 1
   \<and> world (snd (executeScript (example_env False) three_steps example_config ()))
       = world (snd (closeBrowser (example_env False) example_controller
                       (finally_entry (example_env False) three_steps example_config ())))"
proof -
  have a: "acquired_controller (example_env False) three_steps example_config ()
             = Some example_controller"
    using example_run by (simp add: acquired_controller_def split: prod.splits)
  have b: "closes_never_reject (example_env False)"
    by (simp add: closes_never_reject_def example_env_def)
  obtain r where c: "fst (executeScript (example_env False) three_steps example_config ())
                       = Success r"
    using example_run
    by (auto simp add: executeScript_def Let_def split: prod.splits Result.splits)
  have p: "present_closes example_controller = [PageClose, ContextClose, BrowserClose]"
    by (simp add: present_closes_def example_controller_def)
  show ?thesis
    using teardown_on_exit [of "example_env False" three_steps example_config "()"] a b c p
    by auto
qed

text \<open>
  The claim as it was stated, with teardown on every exit path and no close blocked by another
  one, fails on both counts. In the example world whose page close rejects, the controller
  holds a context and a browser, and the run ends with the call that closes the page: neither
  of them is closed. And the run of a script that fails validation makes no call at all, so
  the logger's \<open>cleanup\<close> is not called on that path.
\<close>

theorem teardown_counterexample:
  "bc_context example_controller = Some 2 \<and> bc_browser example_controller = Some 1
   \<and> acquired_controller (example_env True) three_steps example_config ()
       = Some example_controller
   \<and> calls (snd (executeScript (example_env True) three_steps example_config ())) =
       [InitializeBrowser, ExecuteActionStep 1, ExecuteActionStep 2, ExecuteActionStep 2,
        PageScreenshot ''./logs/screenshots/error-step-2-1014.png'',
        LoggerCleanup, CloseBrowser, PageClose]
   \<and> ContextClose \<notin> set (calls (snd (executeScript (example_env True) three_steps
                                         example_config ())))
   \<and> BrowserClose \<notin> set (calls (snd (executeScript (example_env True) three_steps
                                         example_config ())))
   \<and> calls (snd (executeScript (example_env False) no_steps example_config ())) = []
   \<and> LoggerCleanup \<notin> set (calls (snd (executeScript (example_env False) no_steps
                                          example_config ())))"
proof -
  have h: "bc_context example_controller = Some 2 \<and> bc_browser example_controller = Some 1"
    by (simp add: example_controller_def)
  have a: "acquired_controller (example_env True) three_steps example_config ()
             = Some example_controller"
    using rejecting_run by (simp add: acquired_controller_def split: prod.splits)
  have c: "calls (snd (executeScript (example_env True) three_steps example_config ())) =
       [InitializeBrowser, ExecuteActionStep 1, ExecuteActionStep 2, ExecuteActionStep 2,
        PageScreenshot ''./logs/screenshots/error-step-2-1014.png'',
        LoggerCleanup, CloseBrowser, PageClose]"
    using rejecting_run
    by (auto simp add: executeScript_def Let_def split: prod.splits)
  have n: "calls (snd (executeScript (example_env False) no_steps example_config ())) = []"
    by code_simp
  show ?thesis
    unfolding c n using h a by simp
qed

subsection \<open>A failing step\<close>

text \<open>
  C1, as the code has it. Let the loop be entered, let the steps before step \<open>K\<close> (the list
  \<open>pre\<close>, so \<open>K = length pre + 1\<close>) all succeed, and let the retry-wrapped execution of step
  \<open>K\<close> return a declared failure with message \<open>msg\<close>. Then \<open>executeScript\<close> returns a
  top-level success that wraps an \<open>ExecutionResult\<close> with \<open>success = false\<close>,
  \<open>stepsExecuted = K - 1\<close>, \<open>totalSteps\<close> the number of steps of the script and
  \<open>error = msg\<close>. When screenshot-on-error is enabled, one capture is attempted. If it
  succeeds, as it does when no capture can fail, the driver was asked for the file
  \<open>error-step-K-T.png\<close> (\<open>T\<close> a clock reading) in the screenshots directory, and its path
  is appended to the screenshots list. If it fails, as it does when the driver rejects every
  screenshot, the list is left as it was and the logger holds the error entry "Failed to
  capture error screenshot"; the result is returned all the same. When screenshot-on-error is
  disabled, the list is left as it was.
\<close>

theorem step_failure_result:
  fixes env :: "'w env"
  assumes entered: "before_loop env script config (date_now env (initial_run env config w))
                      (tick (initial_run env config w)) = Continue (m1, bc, page)"
    and split: "steps script = pre @ st # post"
    and earlier: "completed_prefix env script config (date_now env (initial_run env config w))
                    page 0 pre m1 = Some mK"
    and fails: "run_result (step_attempts env config page (length pre) st mK) = Failure msg"
  shows "\<exists>r. fst (executeScript env script config w) = Success r
           \<and> \<not> success r
           \<and> stepsExecuted r = length pre
           \<and> totalSteps r = length (steps script)
           \<and> result_error r = Some msg
           \<and> (if screenshotOnError (actions config)
              then ((result_screenshots r = var_screenshots mK
                       \<and> capture_failure_logged (logger (snd (executeScript env script config w))))
                    \<or> (\<exists>T. result_screenshots r = var_screenshots mK @
                          [path_join env (path_join env (outputDir (logging config)) ''screenshots'')
                             (''error-step-'' @ string_of_int (int (Suc (length pre))) @ ''-'' @
                              string_of_int T @ ''.png'')]
                        \<and> PageScreenshot
                             (path_join env
                                (path_join env (outputDir (logging config)) ''screenshots'')
                                (''error-step-'' @ string_of_int (int (Suc (length pre))) @ ''-'' @
                                 string_of_int T @ ''.png''))
                            \<in> set (calls (snd (executeScript env script config w)))))
                 \<and> (captures_always_fail env \<longrightarrow>
                       result_screenshots r = var_screenshots mK
                       \<and> capture_failure_logged
                            (logger (snd (executeScript env script config w))))
                 \<and> (captures_never_fail env \<longrightarrow>
                       (\<exists>T. result_screenshots r = var_screenshots mK @
                          [path_join env (path_join env (outputDir (logging config)) ''screenshots'')
                             (''error-step-'' @ string_of_int (int (Suc (length pre))) @ ''-'' @
                              string_of_int T @ ''.png'')]
                        \<and> PageScreenshot
                             (path_join env
                                (path_join env (outputDir (logging config)) ''screenshots'')
                                (''error-step-'' @ string_of_int (int (Suc (length pre))) @ ''-'' @
                                 string_of_int T @ ''.png''))
                            \<in> set (calls (snd (executeScript env script config w)))))
              else result_screenshots r = var_screenshots mK)"
proof -
  let ?t0 = "date_now env (initial_run env config w)"
  let ?m0 = "tick (initial_run env config w)"
  have s1: "var_stepsExecuted m1 = 0"
    using before_loop_Continue [OF entered] by simp
  from run_steps_prefix [OF earlier, of "st # post"] s1
  have rp: "run_steps env script config ?t0 page 0 (steps script) m1
              = run_steps env script config ?t0 page (length pre) (st # post) mK"
    and sK: "var_stepsExecuted mK = length pre"
    by (simp_all add: split)
  from run_steps_fail_here [OF fails, of script ?t0 post] obtain dur m4
    where rf: "run_steps env script config ?t0 page (length pre) (st # post) mK
                 = step_failed env script config ?t0 page (length pre) st dur msg m4"
      and f4: "frame m4 = frame mK" by blast
  obtain ret m where sf: "step_failed env script config ?t0 page (length pre) st dur msg m4 = (ret, m)"
    by (cases "step_failed env script config ?t0 page (length pre) st dur msg m4")
  have tb: "try_block env script config ?t0 ?m0 = (ret, m, Some bc)"
    using entered rp rf sf by (simp add: try_block_def)
  from step_failed_result(1) [OF sf] obtain r where r: "ret = Success r" "\<not> success r"
    "stepsExecuted r = var_stepsExecuted m4" "totalSteps r = length (steps script)"
    "result_error r = Some msg" "result_screenshots r = var_screenshots m"
    by blast
  from finally_block_Some [of env ret m bc] obtain m' n
    where fb: "finally_block env (ret, m, Some bc) =
                 (case ret of Success r \<Rightarrow> Success (r\<lparr>result_logs := var_logs m'\<rparr>)
                  | Failure e \<Rightarrow> Failure e, m')"
      and lg: "capture_failure_logged (logger m) \<longrightarrow> capture_failure_logged (logger m')"
      and cm: "set (calls m) \<subseteq> set (calls m')"
    by blast
  have R: "executeScript env script config w = (Success (r\<lparr>result_logs := var_logs m'\<rparr>), m')"
    using fb r(1) by (simp add: executeScript_def Let_def tb)
  have s4: "var_stepsExecuted m4 = length pre" "var_screenshots m4 = var_screenshots mK"
    using f4 sK by (simp_all add: frame_def)
  let ?r = "r\<lparr>result_logs := var_logs m'\<rparr>"
  have rs: "result_screenshots ?r = var_screenshots m"
    using r(6) by simp
  have shots: "if screenshotOnError (actions config)
              then ((result_screenshots ?r = var_screenshots mK
                       \<and> capture_failure_logged (logger (snd (executeScript env script config w))))
                    \<or> (\<exists>T. result_screenshots ?r = var_screenshots mK @
                          [path_join env (path_join env (outputDir (logging config)) ''screenshots'')
                             (''error-step-'' @ string_of_int (int (Suc (length pre))) @ ''-'' @
                              string_of_int T @ ''.png'')]
                        \<and> PageScreenshot
                             (path_join env
                                (path_join env (outputDir (logging config)) ''screenshots'')
                                (''error-step-'' @ string_of_int (int (Suc (length pre))) @ ''-'' @
                                 string_of_int T @ ''.png''))
                            \<in> set (calls (snd (executeScript env script config w)))))
                 \<and> (captures_always_fail env \<longrightarrow>
                       result_screenshots ?r = var_screenshots mK
                       \<and> capture_failure_logged
                            (logger (snd (executeScript env script config w))))
                 \<and> (captures_never_fail env \<longrightarrow>
                       (\<exists>T. result_screenshots ?r = var_screenshots mK @
                          [path_join env (path_join env (outputDir (logging config)) ''screenshots'')
                             (''error-step-'' @ string_of_int (int (Suc (length pre))) @ ''-'' @
                              string_of_int T @ ''.png'')]
                        \<and> PageScreenshot
                             (path_join env
                                (path_join env (outputDir (logging config)) ''screenshots'')
                                (''error-step-'' @ string_of_int (int (Suc (length pre))) @ ''-'' @
                                 string_of_int T @ ''.png''))
                            \<in> set (calls (snd (executeScript env script config w)))))
              else result_screenshots ?r = var_screenshots mK"
  proof (cases "screenshotOnError (actions config)")
    case True
    have lgR: "logger (snd (executeScript env script config w)) = logger m'"
      and cR: "calls (snd (executeScript env script config w)) = calls m'"
      by (simp_all add: R)
    have d: "(result_screenshots ?r = var_screenshots mK
                \<and> capture_failure_logged (logger m'))
             \<or> (\<exists>T. result_screenshots ?r = var_screenshots mK @
                   [path_join env (path_join env (outputDir (logging config)) ''screenshots'')
                      (''error-step-'' @ string_of_int (int (Suc (length pre))) @ ''-'' @
                       string_of_int T @ ''.png'')]
                 \<and> PageScreenshot
                      (path_join env
                         (path_join env (outputDir (logging config)) ''screenshots'')
                         (''error-step-'' @ string_of_int (int (Suc (length pre))) @ ''-'' @
                          string_of_int T @ ''.png''))
                     \<in> set (calls m'))"
      using step_failed_result(4) [OF sf True] lg cm s4 by (auto simp add: rs)
    have f: "result_screenshots ?r = var_screenshots mK \<and> capture_failure_logged (logger m')"
      if "captures_always_fail env"
      using step_failed_result(5) [OF sf True that] lg s4 by (simp add: rs)
    have k: "\<exists>T. result_screenshots ?r = var_screenshots mK @
                   [path_join env (path_join env (outputDir (logging config)) ''screenshots'')
                      (''error-step-'' @ string_of_int (int (Suc (length pre))) @ ''-'' @
                       string_of_int T @ ''.png'')]
                 \<and> PageScreenshot
                      (path_join env
                         (path_join env (outputDir (logging config)) ''screenshots'')
                         (''error-step-'' @ string_of_int (int (Suc (length pre))) @ ''-'' @
                          string_of_int T @ ''.png''))
                     \<in> set (calls m')"
      if "captures_never_fail env"
      using step_failed_result(6) [OF sf True that] cm s4 by (auto simp add: rs)
    from d f k True show ?thesis
      unfolding lgR cR by (simp only: if_True) blast
  next
    case False
    from step_failed_result(3) [OF sf False] s4 False show ?thesis by (simp add: rs)
  qed
  have c1: "fst (executeScript env script config w) = Success ?r" by (simp add: R)
  have c2: "\<not> success ?r" using r(2) by simp
  have c3: "stepsExecuted ?r = length pre" using r(3) s4 by simp
  have c4: "totalSteps ?r = length (steps script)" using r(4) by simp
  have c5: "result_error ?r = Some msg" using r(5) by simp
  show ?thesis
    by (intro exI [of _ ?r] conjI c1 c2 c3 c4 c5 shots)
qed

theorem step_failure_result_witness:
  "steps three_steps = [click_step ''#button1''] @ click_step ''#invalid-button'' #
                        [type_step ''#input1'' ''test text'']
   \<and> screenshotOnError (actions example_config)
   \<and> captures_never_fail (example_env False)
   \<and> (\<exists>r. fst (executeScript (example_env False) three_steps example_config ()) = Success r
          \<and> \<not> success r \<and> stepsExecuted r = 1 \<and> totalSteps r = 3
          \<and> result_error r =
              Some ''Element not found: #invalid-button (element_not_found, attempted 2 times)''
          \<and> (\<exists>T. result_screenshots r =
                   [''./logs/screenshots/error-step-2-'' @ string_of_int T @ ''.png'']
                 \<and> PageScreenshot (''./logs/screenshots/error-step-2-'' @ string_of_int T @ ''.png'')
                     \<in> set (calls (snd (executeScript (example_env False) three_steps
                                             example_config ())))))"
proof -
  let ?env = "example_env False"
  let ?t0 = "date_now ?env (initial_run ?env example_config ())"
  have ev: "case before_loop ?env three_steps example_config ?t0
               (tick (initial_run ?env example_config ())) of
          Return x \<Rightarrow> False
        | Continue (m1, bc, page) \<Rightarrow>
            (case completed_prefix ?env three_steps example_config ?t0 page 0
                    [click_step ''#button1''] m1 of
               None \<Rightarrow> False
             | Some mK \<Rightarrow>
                 var_screenshots mK = [] \<and>
                 run_result (step_attempts ?env example_config page (length [click_step ''#button1''])
                               (click_step ''#invalid-button'') mK)
                 = Failure ''Element not found: #invalid-button (element_not_found, attempted 2 times)'')"
    by code_simp
  obtain m1 bc page
    where h1: "before_loop ?env three_steps example_config ?t0
                 (tick (initial_run ?env example_config ())) = Continue (m1, bc, page)"
    using ev
    by (cases "before_loop ?env three_steps example_config ?t0
                 (tick (initial_run ?env example_config ()))")
       (auto simp del: completed_prefix.simps)
  obtain mK
    where h3: "completed_prefix ?env three_steps example_config ?t0 page 0
                 [click_step ''#button1''] m1 = Some mK"
      and h4: "run_result (step_attempts ?env example_config page (length [click_step ''#button1''])
                             (click_step ''#invalid-button'') mK)
               = Failure ''Element not found: #invalid-button (element_not_found, attempted 2 times)''"
      and h5: "var_screenshots mK = []"
    using ev unfolding h1
    by (cases "completed_prefix ?env three_steps example_config ?t0 page 0
                 [click_step ''#button1''] m1")
       (simp_all del: completed_prefix.simps)
  have h2: "steps three_steps = [click_step ''#button1''] @ click_step ''#invalid-button'' #
                                 [type_step ''#input1'' ''test text'']"
    by (simp add: three_steps_def)
  have e: "screenshotOnError (actions example_config)"
      "outputDir (logging example_config) = ''./logs''"
      "path_join ?env = example_join"
    by (simp_all add: example_config_def example_env_def)
  have cn: "captures_never_fail ?env"
    by (simp add: captures_never_fail_def example_env_def)
  have n: "string_of_int 2 = ''2''"
    by code_simp
  from step_failure_result [OF h1 h2 h3 h4]
  show ?thesis
    by (simp add: h2 h5 e cn n example_join_def numeral_3_eq_3) blast
qed

text \<open>
  The claim as it was stated, with an error-screenshot entry in the list whenever
  screenshot-on-error is enabled, fails when the capture itself fails. In the example world
  whose driver rejects every screenshot, the second of three steps fails, the capture is
  attempted and fails, and the result carries an empty screenshots list.
\<close>

theorem step_failure_counterexample:
  "screenshotOnError (actions example_config)
   \<and> captures_always_fail capture_failing_env
   \<and> (case executeScript capture_failing_env three_steps example_config () of
         (res, m) \<Rightarrow>
           (case res of
              Success r \<Rightarrow>
                \<not> success r \<and> stepsExecuted r = 1 \<and> totalSteps r = 3
                \<and> result_error r =
                    Some ''Element not found: #invalid-button (element_not_found, attempted 2 times)''
                \<and> result_screenshots r = []
            | Failure e \<Rightarrow> False)
           \<and> capture_failure_logged (logger m)
           \<and> PageScreenshot ''./logs/screenshots/error-step-2-1014.png'' \<in> set (calls m))"
proof -
  have a: "screenshotOnError (actions example_config)"
    by (simp add: example_config_def)
  have b: "captures_always_fail capture_failing_env"
    by (simp add: captures_always_fail_def capture_failing_env_def)
  have c: "case executeScript capture_failing_env three_steps example_config () of
         (res, m) \<Rightarrow>
           (case res of
              Success r \<Rightarrow>
                \<not> success r \<and> stepsExecuted r = 1 \<and> totalSteps r = 3
                \<and> result_error r =
                    Some ''Element not found: #invalid-button (element_not_found, attempted 2 times)''
                \<and> result_screenshots r = []
            | Failure e \<Rightarrow> False)
           \<and> capture_failure_logged (logger m)
           \<and> PageScreenshot ''./logs/screenshots/error-step-2-1014.png'' \<in> set (calls m)"
    by code_simp
  from a b c show ?thesis by (intro conjI)
qed

end
